theory Spec2Isabelle
  imports Complex_Main
begin

section \<open>Common types\<close>

text \<open>
  \<open>Address\<close> is a TypeScript alias of \<open>string\<close>: nothing in the type keeps a
  malformed address out. An optional argument (\<open>callerAddress?: Address\<close>, or a
  default of \<open>undefined\<close>) is an \<open>Address option\<close>. Every \<open>throw\<close> and every
  rejected promise is a value \<open>Inl e\<close> of a sum type.
\<close>

type_synonym Address = string

datatype error =
  ValidationError string   \<comment> \<open>thrown by an assertion: its message, or the name of the variable\<close>
| TypeError string         \<comment> \<open>thrown by the JavaScript runtime\<close>
| RemoteError string       \<comment> \<open>a rejected promise of a remote call: a revert or a transport failure\<close>

section \<open>ContractWrapper: the cache of contract handles\<close>

text \<open>
  \<open>Signer.getAddress()\<close> and \<open>JsonRpcProvider.getSigner(callerAddress)\<close> belong to the
  ethers library, so they are parameters of the model: a signer is the outcome of its
  \<open>getAddress()\<close> promise, a provider is its \<open>getSigner\<close> function.
\<close>

record Signer =
  getAddress :: "error + Address"

record Provider =
  getSigner :: "Address option \<Rightarrow> Signer"

text \<open>The eight typechain factories whose \<open>connect\<close> the wrapper calls.\<close>

datatype Factory =
  ControllerFactory
| Erc20Factory
| BasicIssuanceModuleFactory
| TradeModuleFactory
| SetTokenFactory
| SetTokenCreatorFactory
| StreamingFeeModuleFactory
| ProtocolViewerFactory

text \<open>
  \<open>Factory.connect(address, signer)\<close> builds a new \<open>Contract\<close> object on every call.
  Object identity is what the cache is about, so objects live in an explicit heap (the
  list of the objects allocated so far) and a handle is a reference into it.
\<close>

record Contract =
  factory :: Factory
  contractAddress :: Address
  contractSigner :: Signer

type_synonym ref = nat
type_synonym heap = "Contract list"

record ContractWrapper =
  provider :: Provider
  cache :: "string \<rightharpoonup> ref"

definition ContractWrapper_new :: "Provider \<Rightarrow> ContractWrapper" where
  "ContractWrapper_new p = \<lparr>provider = p, cache = Map.empty\<rparr>"

definition connect :: "Factory \<Rightarrow> Address \<Rightarrow> Signer \<Rightarrow> heap \<Rightarrow> ref \<times> heap" where
  "connect f address signer h =
     (length h, h @ [\<lparr>factory = f, contractAddress = address, contractSigner = signer\<rparr>])"

text \<open>The template literal \<open>`Kind_${address}_${await signer.getAddress()}`\<close>.\<close>

definition cacheKeyOf :: "string \<Rightarrow> Address \<Rightarrow> Address \<Rightarrow> string" where
  "cacheKeyOf kind address signerAddress = kind @ ''_'' @ address @ ''_'' @ signerAddress"

text \<open>
  The body shared by the eight \<open>load...Async\<close> methods, which differ in the key's prefix
  and the factory only. The \<open>await\<close> of \<open>getAddress()\<close> comes first and may reject
  (a \<open>getSigner\<close> that throws rejects the call in the same way); from the lookup to
  the store nothing is awaited, so the rest is one step. \<open>cacheKey in this.cache\<close>
  also finds what \<open>{}\<close> inherits from \<open>Object.prototype\<close> (\<open>constructor\<close>,
  \<open>toString\<close>, \<open>__proto__\<close>, ...); every key starts with one of the eight
  prefixes, an upper-case letter, and none of those names does, so the test is the
  lookup among the entries stored.
\<close>

definition loadCached ::
  "string \<Rightarrow> Factory \<Rightarrow> Address \<Rightarrow> Signer \<Rightarrow> ContractWrapper \<times> heap
     \<Rightarrow> (error + ref) \<times> ContractWrapper \<times> heap" where
  "loadCached kind f address signer st =
     (case st of (this, h) \<Rightarrow>
      (case getAddress signer of
         Inl e \<Rightarrow> (Inl e, this, h)
       | Inr signerAddress \<Rightarrow>
          (let cacheKey = cacheKeyOf kind address signerAddress in
           (case cache this cacheKey of
              Some contract \<Rightarrow> (Inr contract, this, h)
            | None \<Rightarrow>
               (case connect f address signer h of (contract, h') \<Rightarrow>
                 (Inr contract, this\<lparr>cache := (cache this)(cacheKey \<mapsto> contract)\<rparr>, h'))))))"

definition loadControllerContractAsync ::
  "Address \<Rightarrow> Signer \<Rightarrow> ContractWrapper \<times> heap
     \<Rightarrow> (error + ref) \<times> ContractWrapper \<times> heap" where
  "loadControllerContractAsync controllerAddress signer st =
     loadCached ''Controller'' ControllerFactory controllerAddress signer st"

definition loadERC20Async ::
  "Address \<Rightarrow> Address option \<Rightarrow> ContractWrapper \<times> heap
     \<Rightarrow> (error + ref) \<times> ContractWrapper \<times> heap" where
  "loadERC20Async tokenAddress callerAddress st =
     loadCached ''ERC20'' Erc20Factory tokenAddress
       (getSigner (provider (fst st)) callerAddress) st"

definition loadBasicIssuanceModuleAsync ::
  "Address \<Rightarrow> Address option \<Rightarrow> ContractWrapper \<times> heap
     \<Rightarrow> (error + ref) \<times> ContractWrapper \<times> heap" where
  "loadBasicIssuanceModuleAsync basicIssuanceModuleAddress callerAddress st =
     loadCached ''BasicIssuance'' BasicIssuanceModuleFactory basicIssuanceModuleAddress
       (getSigner (provider (fst st)) callerAddress) st"

definition loadTradeModuleAsync ::
  "Address \<Rightarrow> Address option \<Rightarrow> ContractWrapper \<times> heap
     \<Rightarrow> (error + ref) \<times> ContractWrapper \<times> heap" where
  "loadTradeModuleAsync tradeModuleAddress callerAddress st =
     loadCached ''TradeModule'' TradeModuleFactory tradeModuleAddress
       (getSigner (provider (fst st)) callerAddress) st"

definition loadSetTokenAsync ::
  "Address \<Rightarrow> Address option \<Rightarrow> ContractWrapper \<times> heap
     \<Rightarrow> (error + ref) \<times> ContractWrapper \<times> heap" where
  "loadSetTokenAsync setTokenAddress callerAddress st =
     loadCached ''SetToken'' SetTokenFactory setTokenAddress
       (getSigner (provider (fst st)) callerAddress) st"

definition loadSetTokenCreatorAsync ::
  "Address \<Rightarrow> Signer \<Rightarrow> ContractWrapper \<times> heap
     \<Rightarrow> (error + ref) \<times> ContractWrapper \<times> heap" where
  "loadSetTokenCreatorAsync setTokenCreatorAddress signer st =
     loadCached ''SetTokenCreator'' SetTokenCreatorFactory setTokenCreatorAddress signer st"

definition loadStreamingFeeModuleAsync ::
  "Address \<Rightarrow> Address option \<Rightarrow> ContractWrapper \<times> heap
     \<Rightarrow> (error + ref) \<times> ContractWrapper \<times> heap" where
  "loadStreamingFeeModuleAsync streamingFeeModuleAddress callerAddress st =
     loadCached ''StreamingFeeModule'' StreamingFeeModuleFactory streamingFeeModuleAddress
       (getSigner (provider (fst st)) callerAddress) st"

definition loadProtocolViewerContractAsync ::
  "Address \<Rightarrow> Signer \<Rightarrow> ContractWrapper \<times> heap
     \<Rightarrow> (error + ref) \<times> ContractWrapper \<times> heap" where
  "loadProtocolViewerContractAsync protocolViewerAddress signer st =
     loadCached ''ProtocolViewer'' ProtocolViewerFactory protocolViewerAddress signer st"

text \<open>
  A call of any of the eight methods, with its arguments: the operations of a
  \<open>ContractWrapper\<close> (the class has no other method, and none that removes a key).
\<close>

datatype LoadCall =
  LoadController Address Signer
| LoadERC20 Address "Address option"
| LoadBasicIssuanceModule Address "Address option"
| LoadTradeModule Address "Address option"
| LoadSetToken Address "Address option"
| LoadSetTokenCreator Address Signer
| LoadStreamingFeeModule Address "Address option"
| LoadProtocolViewer Address Signer

fun load :: "LoadCall \<Rightarrow> ContractWrapper \<times> heap \<Rightarrow> (error + ref) \<times> ContractWrapper \<times> heap" where
  "load (LoadController a s) st = loadControllerContractAsync a s st"
| "load (LoadERC20 a c) st = loadERC20Async a c st"
| "load (LoadBasicIssuanceModule a c) st = loadBasicIssuanceModuleAsync a c st"
| "load (LoadTradeModule a c) st = loadTradeModuleAsync a c st"
| "load (LoadSetToken a c) st = loadSetTokenAsync a c st"
| "load (LoadSetTokenCreator a s) st = loadSetTokenCreatorAsync a s st"
| "load (LoadStreamingFeeModule a c) st = loadStreamingFeeModuleAsync a c st"
| "load (LoadProtocolViewer a s) st = loadProtocolViewerContractAsync a s st"

text \<open>Any number of further calls, whatever they return.\<close>

fun loadAll :: "LoadCall list \<Rightarrow> ContractWrapper \<times> heap \<Rightarrow> ContractWrapper \<times> heap" where
  "loadAll [] st = st"
| "loadAll (c # cs) st = loadAll cs (snd (load c st))"

text \<open>
  The tuple a call is cached under: the contract kind (the key's prefix), the contract
  address as given, and the caller address as the signer reports it.
\<close>

fun kindOf :: "LoadCall \<Rightarrow> string" where
  "kindOf (LoadController a s) = ''Controller''"
| "kindOf (LoadERC20 a c) = ''ERC20''"
| "kindOf (LoadBasicIssuanceModule a c) = ''BasicIssuance''"
| "kindOf (LoadTradeModule a c) = ''TradeModule''"
| "kindOf (LoadSetToken a c) = ''SetToken''"
| "kindOf (LoadSetTokenCreator a s) = ''SetTokenCreator''"
| "kindOf (LoadStreamingFeeModule a c) = ''StreamingFeeModule''"
| "kindOf (LoadProtocolViewer a s) = ''ProtocolViewer''"

fun factoryOf :: "LoadCall \<Rightarrow> Factory" where
  "factoryOf (LoadController a s) = ControllerFactory"
| "factoryOf (LoadERC20 a c) = Erc20Factory"
| "factoryOf (LoadBasicIssuanceModule a c) = BasicIssuanceModuleFactory"
| "factoryOf (LoadTradeModule a c) = TradeModuleFactory"
| "factoryOf (LoadSetToken a c) = SetTokenFactory"
| "factoryOf (LoadSetTokenCreator a s) = SetTokenCreatorFactory"
| "factoryOf (LoadStreamingFeeModule a c) = StreamingFeeModuleFactory"
| "factoryOf (LoadProtocolViewer a s) = ProtocolViewerFactory"

fun addressOf :: "LoadCall \<Rightarrow> Address" where
  "addressOf (LoadController a s) = a"
| "addressOf (LoadERC20 a c) = a"
| "addressOf (LoadBasicIssuanceModule a c) = a"
| "addressOf (LoadTradeModule a c) = a"
| "addressOf (LoadSetToken a c) = a"
| "addressOf (LoadSetTokenCreator a s) = a"
| "addressOf (LoadStreamingFeeModule a c) = a"
| "addressOf (LoadProtocolViewer a s) = a"

fun signerOf :: "Provider \<Rightarrow> LoadCall \<Rightarrow> Signer" where
  "signerOf p (LoadController a s) = s"
| "signerOf p (LoadERC20 a c) = getSigner p c"
| "signerOf p (LoadBasicIssuanceModule a c) = getSigner p c"
| "signerOf p (LoadTradeModule a c) = getSigner p c"
| "signerOf p (LoadSetToken a c) = getSigner p c"
| "signerOf p (LoadSetTokenCreator a s) = s"
| "signerOf p (LoadStreamingFeeModule a c) = getSigner p c"
| "signerOf p (LoadProtocolViewer a s) = s"

definition tupleOf :: "Provider \<Rightarrow> LoadCall \<Rightarrow> error + string \<times> Address \<times> Address" where
  "tupleOf p c =
     (case getAddress (signerOf p c) of
        Inl e \<Rightarrow> Inl e
      | Inr signerAddress \<Rightarrow> Inr (kindOf c, addressOf c, signerAddress))"

text \<open>
  What holds of every state a \<open>ContractWrapper\<close> can be in: a cached handle was
  allocated, and two keys never share a handle.
\<close>

definition cacheOk :: "ContractWrapper \<times> heap \<Rightarrow> bool" where
  "cacheOk st =
     ((\<forall>k r. cache (fst st) k = Some r \<longrightarrow> r < length (snd st)) \<and>
      (\<forall>k k' r. cache (fst st) k = Some r \<and> cache (fst st) k' = Some r \<longrightarrow> k = k'))"

text \<open>
  The key is built with \<open>_\<close> as its separator. The eight prefixes hold no \<open>_\<close>; an
  address that \<open>getAddress()\<close> reports is a hexadecimal string and holds none either.
\<close>

definition separatorFree :: "Address \<Rightarrow> bool" where
  "separatorFree a = (CHR ''_'' \<notin> set a)"

text \<open>A provider for evaluation: the node's first account is \<open>0xA1\<close>.\<close>

definition exampleProvider :: Provider where
  "exampleProvider =
     \<lparr>getSigner = (\<lambda>callerAddress.
        \<lparr>getAddress = Inr (case callerAddress of None \<Rightarrow> ''0xA1'' | Some a \<Rightarrow> a)\<rparr>)\<rparr>"

section \<open>SetTokenAPI\<close>

subsection \<open>Entities\<close>

text \<open>
  \<open>BigNumber\<close> is an arbitrary-precision integer. \<open>Position\<close> has the fields of the
  tuples that \<open>SetTokenWrapper.popPosition\<close> declares and the fixtures show. The
  declarations of \<open>SetDetails\<close>, \<open>SetDetailsWithStreamingInfo\<close> and \<open>ModuleState\<close>
  (\<open>../types\<close>) are not among the sources: the fields are those of the fixture
  \<open>setDetailsResponseBUD\<close> and of the object \<open>fetchSetDetailsAsync\<close> builds, the
  states those the tests read from \<open>MODULE_STATE\<close>.
\<close>

record Position =
  component :: Address
  module :: Address
  unit :: int
  positionState :: nat
  data :: string

record SetDetails =
  name :: string
  symbol :: string
  manager :: Address
  modules :: "Address list"
  moduleStatuses :: "nat list"
  positions :: "Position list"
  totalSupply :: int

record StreamingFeeInfo =
  feeRecipient :: Address
  streamingFeePercentage :: int
  unaccruedFees :: int

record SetDetailsWithStreamingInfo = SetDetails +
  feeRecipient :: Address
  streamingFeePercentage :: int
  unaccruedFees :: int

datatype SetDetailsResult =
  Plain SetDetails
| WithStreamingInfo SetDetailsWithStreamingInfo

datatype ModuleState = NONE | PENDING | INITIALIZED

type_synonym ContractTransaction = string
type_synonym TransactionOverrides = "(string \<times> string) list"

subsection \<open>Asynchronous calls\<close>

text \<open>
  A call that returns a promise is a function of the world outside the \<open>SetTokenAPI\<close>
  object: whatever the wrappers hold and the chain behind them. It returns the value the
  promise resolves to, or the error it rejects with, and the world it leaves. The world
  is a type parameter: the operations below pass it from one wrapper call to the next
  and have no other access to it.
\<close>

type_synonym ('a, 'w) call = "'w \<Rightarrow> (error + 'a) \<times> 'w"

text \<open>\<open>const x = await m; ...\<close>: a rejection of \<open>m\<close> ends the method with that error.\<close>

definition await :: "('a, 'w) call \<Rightarrow> ('a \<Rightarrow> ('b, 'w) call) \<Rightarrow> ('b, 'w) call" where
  "await m f w = (case m w of (Inl e, w') \<Rightarrow> (Inl e, w') | (Inr x, w') \<Rightarrow> f x w')"

text \<open>
  An assertion statement followed by the rest of the method: a throw ends the method,
  and the world is as it was.
\<close>

definition check :: "error + unit \<Rightarrow> ('a, 'w) call \<Rightarrow> ('a, 'w) call" where
  "check a rest w = (case a of Inl e \<Rightarrow> (Inl e, w) | Inr _ \<Rightarrow> rest w)"

text \<open>\<open>Array.prototype.map\<close> and \<open>forEach\<close> with a callback that may throw.\<close>

fun mapE :: "('a \<Rightarrow> error + 'b) \<Rightarrow> 'a list \<Rightarrow> error + 'b list" where
  "mapE f [] = Inr []"
| "mapE f (x # xs) =
     (case f x of
        Inl e \<Rightarrow> Inl e
      | Inr y \<Rightarrow> (case mapE f xs of Inl e \<Rightarrow> Inl e | Inr ys \<Rightarrow> Inr (y # ys)))"

fun forEachE :: "('a \<Rightarrow> 's \<Rightarrow> error + 's) \<Rightarrow> 'a list \<Rightarrow> 's \<Rightarrow> error + 's" where
  "forEachE f [] s = Inr s"
| "forEachE f (x # xs) s = (case f x s of Inl e \<Rightarrow> Inl e | Inr s' \<Rightarrow> forEachE f xs s')"

subsection \<open>Assertions\<close>

text \<open>
  The constructor takes the assertions as an argument (\<open>assertions || new Assertions()\<close>),
  so they are a field of the object. Each assertion returns or throws.
\<close>

record CommonAssertions =
  isNotEmptyArray :: "Address list \<Rightarrow> string \<Rightarrow> error + unit"
  isEqualLength :: "Address list \<Rightarrow> int list \<Rightarrow> string \<Rightarrow> error + unit"

record SchemaAssertions =
  isValidAddress :: "string \<Rightarrow> Address \<Rightarrow> error + unit"
  isValidAddressList :: "string \<Rightarrow> Address list \<Rightarrow> error + unit"
  isValidBytes32 :: "string \<Rightarrow> string \<Rightarrow> error + unit"

record Assertions =
  common :: CommonAssertions
  schema :: SchemaAssertions

text \<open>
  Modelled from the spec: the class \<open>Assertions\<close> (\<open>../assertions\<close>) is not among the
  sources. The spec's validation layer is "pre-call assertions (address format,
  array-length equality, non-empty lists)", raised on a "malformed address" and on
  "mismatched array lengths". The format itself is not given, so being well-formed is a
  parameter: \<open>isAddress\<close> for an address, \<open>isHash\<close> for a 32-byte hash.
\<close>

definition Assertions_new :: "(Address \<Rightarrow> bool) \<Rightarrow> (string \<Rightarrow> bool) \<Rightarrow> Assertions" where
  "Assertions_new isAddress isHash =
     \<lparr>common =
        \<lparr>isNotEmptyArray = (\<lambda>xs msg. if xs = [] then Inl (ValidationError msg) else Inr ()),
         isEqualLength = (\<lambda>xs ys msg.
            if length xs \<noteq> length ys then Inl (ValidationError msg) else Inr ())\<rparr>,
      schema =
        \<lparr>isValidAddress = (\<lambda>variableName v.
            if isAddress v then Inr () else Inl (ValidationError variableName)),
         isValidAddressList = (\<lambda>variableName vs.
            if list_all isAddress vs then Inr () else Inl (ValidationError variableName)),
         isValidBytes32 = (\<lambda>variableName v.
            if isHash v then Inr () else Inl (ValidationError variableName))\<rparr>\<rparr>"

subsection \<open>The wrappers behind the API\<close>

text \<open>
  \<open>SetTokenCreatorWrapper\<close>, \<open>ProtocolViewerWrapper\<close>, \<open>ProtocolUtils\<close> and the
  \<open>SetTokenWrapper\<close> that \<open>SetTokenAPI\<close> imports are not among the sources (the
  \<open>SetTokenWrapper.ts\<close> that is has \<open>popPosition\<close> only). They are fields of the object,
  and every remote call of the API goes through one of their methods: each method is a
  parameter, a call of its declared arguments.
\<close>

record 'w SetTokenCreatorWrapper =
  create :: "Address list \<Rightarrow> int list \<Rightarrow> Address list \<Rightarrow> Address \<Rightarrow> string \<Rightarrow> string
    \<Rightarrow> Address option \<Rightarrow> TransactionOverrides \<Rightarrow> (ContractTransaction, 'w) call"

record 'w ProtocolViewerWrapper =
  getSetDetails :: "Address \<Rightarrow> Address list \<Rightarrow> Address option \<Rightarrow> (SetDetails, 'w) call"
  batchFetchStreamingFeeInfo ::
    "Address list \<Rightarrow> Address option \<Rightarrow> (StreamingFeeInfo list, 'w) call"
  batchFetchDetails ::
    "Address list \<Rightarrow> Address list \<Rightarrow> Address option \<Rightarrow> (SetDetails list, 'w) call"
  batchFetchManagers :: "Address list \<Rightarrow> (Address list, 'w) call"
  batchFetchBalancesOf ::
    "Address list \<Rightarrow> Address list \<Rightarrow> Address option \<Rightarrow> (int list, 'w) call"
  batchFetchAllowances ::
    "Address list \<Rightarrow> Address list \<Rightarrow> Address list \<Rightarrow> Address option \<Rightarrow> (int list, 'w) call"

record 'w SetTokenWrapper =
  controller :: "Address \<Rightarrow> (Address, 'w) call"
  manager :: "Address \<Rightarrow> (Address, 'w) call"
  getPositions :: "Address \<Rightarrow> Address option \<Rightarrow> (Position list, 'w) call"
  getModules :: "Address \<Rightarrow> Address option \<Rightarrow> (Address list, 'w) call"
  moduleStates :: "Address \<Rightarrow> Address \<Rightarrow> Address option \<Rightarrow> (ModuleState, 'w) call"
  addModule ::
    "Address \<Rightarrow> Address \<Rightarrow> Address option \<Rightarrow> TransactionOverrides \<Rightarrow> (ContractTransaction, 'w) call"
  setManager ::
    "Address \<Rightarrow> Address \<Rightarrow> Address option \<Rightarrow> TransactionOverrides \<Rightarrow> (ContractTransaction, 'w) call"
  initializeModule ::
    "Address \<Rightarrow> Address option \<Rightarrow> TransactionOverrides \<Rightarrow> (ContractTransaction, 'w) call"
  isInitializedModule :: "Address \<Rightarrow> Address \<Rightarrow> Address option \<Rightarrow> (bool, 'w) call"
  isPendingModule :: "Address \<Rightarrow> Address \<Rightarrow> Address option \<Rightarrow> (bool, 'w) call"

record 'w ProtocolUtils =
  getCreatedSetTokenAddress :: "string \<Rightarrow> (Address, 'w) call"

subsection \<open>The class and its methods\<close>

record 'w SetTokenAPI =
  setTokenWrapper :: "'w SetTokenWrapper"
  setTokenCreatorWrapper :: "'w SetTokenCreatorWrapper"
  protocolViewerWrapper :: "'w ProtocolViewerWrapper"
  protocolUtils :: "'w ProtocolUtils"
  assert :: Assertions
  streamingFeeModuleAddress :: Address

definition createAsync ::
  "'w SetTokenAPI \<Rightarrow> Address list \<Rightarrow> int list \<Rightarrow> Address list \<Rightarrow> Address \<Rightarrow> string \<Rightarrow> string
     \<Rightarrow> Address option \<Rightarrow> TransactionOverrides \<Rightarrow> (ContractTransaction, 'w) call" where
  "createAsync this componentAddresses units moduleAddresses managerAddress name' symbol'
       callerAddress txOpts =
     check (isNotEmptyArray (common (assert this)) componentAddresses
              ''Component addresses must contain at least one component.'')
    (check (isEqualLength (common (assert this)) componentAddresses units
              ''Component addresses and units must be equal length.'')
    (check (isValidAddressList (schema (assert this)) ''componentAddresses'' componentAddresses)
    (check (isValidAddressList (schema (assert this)) ''moduleAddresses'' moduleAddresses)
    (check (isValidAddress (schema (assert this)) ''managerAddress'' managerAddress)
    (create (setTokenCreatorWrapper this) componentAddresses units moduleAddresses
       managerAddress name' symbol' callerAddress txOpts)))))"

definition getSetAddressFromCreateHash :: "'w SetTokenAPI \<Rightarrow> string \<Rightarrow> (Address, 'w) call" where
  "getSetAddressFromCreateHash this txHash =
     check (isValidBytes32 (schema (assert this)) ''txHash'' txHash)
    (getCreatedSetTokenAddress (protocolUtils this) txHash)"

text \<open>
  \<open>const [streamingFeeInfo] = ...\<close> takes the first element of the array; of an empty
  array it takes \<open>undefined\<close>, and reading \<open>streamingFeeInfo.feeRecipient\<close> then throws
  a \<open>TypeError\<close>. The spread \<open>{...setDetails, feeRecipient: ..., ...}\<close> is the record
  extended by the three fields.
\<close>

definition fetchSetDetailsAsync ::
  "'w SetTokenAPI \<Rightarrow> Address \<Rightarrow> Address list \<Rightarrow> Address option \<Rightarrow> (SetDetailsResult, 'w) call" where
  "fetchSetDetailsAsync this setTokenAddress moduleAddresses callerAddress =
     check (isValidAddress (schema (assert this)) ''setTokenAddress'' setTokenAddress)
    (check (isValidAddressList (schema (assert this)) ''moduleAddresses'' moduleAddresses)
    (await (getSetDetails (protocolViewerWrapper this) setTokenAddress moduleAddresses callerAddress)
      (\<lambda>setDetails.
        let shouldIncludeStreamingFee = streamingFeeModuleAddress this \<in> set (modules setDetails) in
        if \<not> shouldIncludeStreamingFee then (\<lambda>w. (Inr (Plain setDetails), w))
        else
          await (batchFetchStreamingFeeInfo (protocolViewerWrapper this) [setTokenAddress] callerAddress)
            (\<lambda>infos w.
              case infos of
                [] \<Rightarrow> (Inl (TypeError ''Cannot read property feeRecipient of undefined''), w)
              | streamingFeeInfo # _ \<Rightarrow>
                  (Inr (WithStreamingInfo (SetDetails.extend setDetails
                     \<lparr>feeRecipient = StreamingFeeInfo.feeRecipient streamingFeeInfo,
                      streamingFeePercentage = StreamingFeeInfo.streamingFeePercentage streamingFeeInfo,
                      unaccruedFees = StreamingFeeInfo.unaccruedFees streamingFeeInfo\<rparr>)), w)))))"

definition batchFetchSetDetailsAsync ::
  "'w SetTokenAPI \<Rightarrow> Address list \<Rightarrow> Address list \<Rightarrow> Address option \<Rightarrow> (SetDetails list, 'w) call" where
  "batchFetchSetDetailsAsync this setTokenAddresses moduleAddresses callerAddress =
     check (isValidAddressList (schema (assert this)) ''setTokenAddresses'' setTokenAddresses)
    (check (isValidAddressList (schema (assert this)) ''moduleAddresses'' moduleAddresses)
    (batchFetchDetails (protocolViewerWrapper this) setTokenAddresses moduleAddresses callerAddress))"

definition batchFetchManagersAsync :: "'w SetTokenAPI \<Rightarrow> Address list \<Rightarrow> (Address list, 'w) call" where
  "batchFetchManagersAsync this tokenAddresses =
     batchFetchManagers (protocolViewerWrapper this) tokenAddresses"

definition batchFetchBalancesOfAsync ::
  "'w SetTokenAPI \<Rightarrow> Address list \<Rightarrow> Address \<Rightarrow> Address option \<Rightarrow> (int list, 'w) call" where
  "batchFetchBalancesOfAsync this tokenAddresses userAddress callerAddress =
     check (isValidAddress (schema (assert this)) ''userAddress'' userAddress)
    (\<lambda>w. case mapE (\<lambda>tokenAddress.
               case isValidAddress (schema (assert this)) ''tokenAddress'' tokenAddress of
                 Inl e \<Rightarrow> Inl e
               | Inr _ \<Rightarrow> Inr userAddress) tokenAddresses of
            Inl e \<Rightarrow> (Inl e, w)
          | Inr ownerAddresses \<Rightarrow>
              batchFetchBalancesOf (protocolViewerWrapper this) tokenAddresses ownerAddresses
                callerAddress w)"

definition batchFetchAllowancesAsync ::
  "'w SetTokenAPI \<Rightarrow> Address list \<Rightarrow> Address \<Rightarrow> Address \<Rightarrow> Address option \<Rightarrow> (int list, 'w) call" where
  "batchFetchAllowancesAsync this tokenAddresses ownerAddress spenderAddress callerAddress =
     check (isValidAddress (schema (assert this)) ''ownerAddress'' ownerAddress)
    (check (isValidAddress (schema (assert this)) ''spenderAddress'' spenderAddress)
    (\<lambda>w. case forEachE (\<lambda>tokenAddress (ownerAddresses, spenderAddresses).
               case isValidAddress (schema (assert this)) ''tokenAddress'' tokenAddress of
                 Inl e \<Rightarrow> Inl e
               | Inr _ \<Rightarrow> Inr (ownerAddresses @ [ownerAddress], spenderAddresses @ [spenderAddress]))
             tokenAddresses ([], []) of
            Inl e \<Rightarrow> (Inl e, w)
          | Inr (ownerAddresses, spenderAddresses) \<Rightarrow>
              batchFetchAllowances (protocolViewerWrapper this) tokenAddresses ownerAddresses
                spenderAddresses callerAddress w))"

definition getControllerAddressAsync :: "'w SetTokenAPI \<Rightarrow> Address \<Rightarrow> (Address, 'w) call" where
  "getControllerAddressAsync this setAddress =
     check (isValidAddress (schema (assert this)) ''setAddress'' setAddress)
    (controller (setTokenWrapper this) setAddress)"

definition getManagerAddressAsync :: "'w SetTokenAPI \<Rightarrow> Address \<Rightarrow> (Address, 'w) call" where
  "getManagerAddressAsync this setAddress =
     check (isValidAddress (schema (assert this)) ''setAddress'' setAddress)
    (SetTokenWrapper.manager (setTokenWrapper this) setAddress)"

definition getPositionsAsync ::
  "'w SetTokenAPI \<Rightarrow> Address \<Rightarrow> Address option \<Rightarrow> (Position list, 'w) call" where
  "getPositionsAsync this setAddress callerAddress =
     check (isValidAddress (schema (assert this)) ''setAddress'' setAddress)
    (getPositions (setTokenWrapper this) setAddress callerAddress)"

definition getModulesAsync ::
  "'w SetTokenAPI \<Rightarrow> Address \<Rightarrow> Address option \<Rightarrow> (Address list, 'w) call" where
  "getModulesAsync this setAddress callerAddress =
     check (isValidAddress (schema (assert this)) ''setAddress'' setAddress)
    (getModules (setTokenWrapper this) setAddress callerAddress)"

definition getModuleStateAsync ::
  "'w SetTokenAPI \<Rightarrow> Address \<Rightarrow> Address \<Rightarrow> Address option \<Rightarrow> (ModuleState, 'w) call" where
  "getModuleStateAsync this setAddress moduleAddress callerAddress =
     check (isValidAddress (schema (assert this)) ''setAddress'' setAddress)
    (check (isValidAddress (schema (assert this)) ''moduleAddress'' moduleAddress)
    (moduleStates (setTokenWrapper this) setAddress moduleAddress callerAddress))"

definition addModuleAsync ::
  "'w SetTokenAPI \<Rightarrow> Address \<Rightarrow> Address \<Rightarrow> Address option \<Rightarrow> TransactionOverrides
     \<Rightarrow> (ContractTransaction, 'w) call" where
  "addModuleAsync this setAddress moduleAddress callerAddress txOpts =
     check (isValidAddress (schema (assert this)) ''setAddress'' setAddress)
    (check (isValidAddress (schema (assert this)) ''moduleAddress'' moduleAddress)
    (addModule (setTokenWrapper this) setAddress moduleAddress callerAddress txOpts))"

definition setManagerAsync ::
  "'w SetTokenAPI \<Rightarrow> Address \<Rightarrow> Address \<Rightarrow> Address option \<Rightarrow> TransactionOverrides
     \<Rightarrow> (ContractTransaction, 'w) call" where
  "setManagerAsync this setAddress managerAddress callerAddress txOpts =
     check (isValidAddress (schema (assert this)) ''setAddress'' setAddress)
    (check (isValidAddress (schema (assert this)) ''managerAddress'' managerAddress)
    (setManager (setTokenWrapper this) setAddress managerAddress callerAddress txOpts))"

definition initializeModuleAsync ::
  "'w SetTokenAPI \<Rightarrow> Address \<Rightarrow> Address option \<Rightarrow> TransactionOverrides
     \<Rightarrow> (ContractTransaction, 'w) call" where
  "initializeModuleAsync this setAddress callerAddress txOpts =
     check (isValidAddress (schema (assert this)) ''setAddress'' setAddress)
    (initializeModule (setTokenWrapper this) setAddress callerAddress txOpts)"

definition isModuleEnabledAsync ::
  "'w SetTokenAPI \<Rightarrow> Address \<Rightarrow> Address \<Rightarrow> Address option \<Rightarrow> (bool, 'w) call" where
  "isModuleEnabledAsync this setAddress moduleAddress callerAddress =
     check (isValidAddress (schema (assert this)) ''setAddress'' setAddress)
    (check (isValidAddress (schema (assert this)) ''moduleAddress'' moduleAddress)
    (isInitializedModule (setTokenWrapper this) setAddress moduleAddress callerAddress))"

definition isModulePendingAsync ::
  "'w SetTokenAPI \<Rightarrow> Address \<Rightarrow> Address \<Rightarrow> Address option \<Rightarrow> (bool, 'w) call" where
  "isModulePendingAsync this setAddress moduleAddress callerAddress =
     check (isValidAddress (schema (assert this)) ''setAddress'' setAddress)
    (check (isValidAddress (schema (assert this)) ''moduleAddress'' moduleAddress)
    (isPendingModule (setTokenWrapper this) setAddress moduleAddress callerAddress))"

subsection \<open>The public operations as one interface\<close>

text \<open>A call of a public method with its arguments, and what the methods return.\<close>

datatype ApiCall =
  CreateAsync "Address list" "int list" "Address list" Address string string "Address option"
    TransactionOverrides
| GetSetAddressFromCreateHash string
| FetchSetDetailsAsync Address "Address list" "Address option"
| BatchFetchSetDetailsAsync "Address list" "Address list" "Address option"
| BatchFetchManagersAsync "Address list"
| BatchFetchBalancesOfAsync "Address list" Address "Address option"
| BatchFetchAllowancesAsync "Address list" Address Address "Address option"
| GetControllerAddressAsync Address
| GetManagerAddressAsync Address
| GetPositionsAsync Address "Address option"
| GetModulesAsync Address "Address option"
| GetModuleStateAsync Address Address "Address option"
| AddModuleAsync Address Address "Address option" TransactionOverrides
| SetManagerAsync Address Address "Address option" TransactionOverrides
| InitializeModuleAsync Address "Address option" TransactionOverrides
| IsModuleEnabledAsync Address Address "Address option"
| IsModulePendingAsync Address Address "Address option"

datatype ApiResult =
  Transaction ContractTransaction
| AnAddress Address
| Details SetDetailsResult
| DetailsList "SetDetails list"
| Addresses "Address list"
| Numbers "int list"
| Positions "Position list"
| AState ModuleState
| Flag bool

definition returning :: "('a \<Rightarrow> 'b) \<Rightarrow> ('a, 'w) call \<Rightarrow> ('b, 'w) call" where
  "returning f m w = (case m w of (Inl e, w') \<Rightarrow> (Inl e, w') | (Inr x, w') \<Rightarrow> (Inr (f x), w'))"

fun perform :: "'w SetTokenAPI \<Rightarrow> ApiCall \<Rightarrow> (ApiResult, 'w) call" where
  "perform this (CreateAsync cs us ms m n s c t) =
     returning Transaction (createAsync this cs us ms m n s c t)"
| "perform this (GetSetAddressFromCreateHash h) =
     returning AnAddress (getSetAddressFromCreateHash this h)"
| "perform this (FetchSetDetailsAsync a ms c) = returning Details (fetchSetDetailsAsync this a ms c)"
| "perform this (BatchFetchSetDetailsAsync as ms c) =
     returning DetailsList (batchFetchSetDetailsAsync this as ms c)"
| "perform this (BatchFetchManagersAsync ts) = returning Addresses (batchFetchManagersAsync this ts)"
| "perform this (BatchFetchBalancesOfAsync ts u c) =
     returning Numbers (batchFetchBalancesOfAsync this ts u c)"
| "perform this (BatchFetchAllowancesAsync ts ow sp c) =
     returning Numbers (batchFetchAllowancesAsync this ts ow sp c)"
| "perform this (GetControllerAddressAsync a) = returning AnAddress (getControllerAddressAsync this a)"
| "perform this (GetManagerAddressAsync a) = returning AnAddress (getManagerAddressAsync this a)"
| "perform this (GetPositionsAsync a c) = returning Positions (getPositionsAsync this a c)"
| "perform this (GetModulesAsync a c) = returning Addresses (getModulesAsync this a c)"
| "perform this (GetModuleStateAsync a m c) = returning AState (getModuleStateAsync this a m c)"
| "perform this (AddModuleAsync a m c t) = returning Transaction (addModuleAsync this a m c t)"
| "perform this (SetManagerAsync a m c t) = returning Transaction (setManagerAsync this a m c t)"
| "perform this (InitializeModuleAsync a c t) =
     returning Transaction (initializeModuleAsync this a c t)"
| "perform this (IsModuleEnabledAsync a m c) = returning Flag (isModuleEnabledAsync this a m c)"
| "perform this (IsModulePendingAsync a m c) = returning Flag (isModulePendingAsync this a m c)"

text \<open>
  The addresses among the arguments of a call: every parameter of type \<open>Address\<close> or
  \<open>Address[]\<close>, the optional \<open>callerAddress\<close> when it is given. Of these,
  \<open>assertedAddresses\<close> are the ones the method hands to \<open>isValidAddress\<close> or
  \<open>isValidAddressList\<close>: no method asserts its \<open>callerAddress\<close>, and
  \<open>batchFetchManagersAsync\<close> asserts nothing.
\<close>

fun optional :: "'a option \<Rightarrow> 'a list" where
  "optional None = []"
| "optional (Some x) = [x]"

fun addressArguments :: "ApiCall \<Rightarrow> Address list" where
  "addressArguments (CreateAsync cs us ms m n s c t) = cs @ ms @ [m] @ optional c"
| "addressArguments (GetSetAddressFromCreateHash h) = []"
| "addressArguments (FetchSetDetailsAsync a ms c) = [a] @ ms @ optional c"
| "addressArguments (BatchFetchSetDetailsAsync as ms c) = as @ ms @ optional c"
| "addressArguments (BatchFetchManagersAsync ts) = ts"
| "addressArguments (BatchFetchBalancesOfAsync ts u c) = ts @ [u] @ optional c"
| "addressArguments (BatchFetchAllowancesAsync ts ow sp c) = ts @ [ow, sp] @ optional c"
| "addressArguments (GetControllerAddressAsync a) = [a]"
| "addressArguments (GetManagerAddressAsync a) = [a]"
| "addressArguments (GetPositionsAsync a c) = [a] @ optional c"
| "addressArguments (GetModulesAsync a c) = [a] @ optional c"
| "addressArguments (GetModuleStateAsync a m c) = [a, m] @ optional c"
| "addressArguments (AddModuleAsync a m c t) = [a, m] @ optional c"
| "addressArguments (SetManagerAsync a m c t) = [a, m] @ optional c"
| "addressArguments (InitializeModuleAsync a c t) = [a] @ optional c"
| "addressArguments (IsModuleEnabledAsync a m c) = [a, m] @ optional c"
| "addressArguments (IsModulePendingAsync a m c) = [a, m] @ optional c"

fun assertedAddresses :: "ApiCall \<Rightarrow> Address list" where
  "assertedAddresses (CreateAsync cs us ms m n s c t) = cs @ ms @ [m]"
| "assertedAddresses (GetSetAddressFromCreateHash h) = []"
| "assertedAddresses (FetchSetDetailsAsync a ms c) = [a] @ ms"
| "assertedAddresses (BatchFetchSetDetailsAsync as ms c) = as @ ms"
| "assertedAddresses (BatchFetchManagersAsync ts) = []"
| "assertedAddresses (BatchFetchBalancesOfAsync ts u c) = ts @ [u]"
| "assertedAddresses (BatchFetchAllowancesAsync ts ow sp c) = ts @ [ow, sp]"
| "assertedAddresses (GetControllerAddressAsync a) = [a]"
| "assertedAddresses (GetManagerAddressAsync a) = [a]"
| "assertedAddresses (GetPositionsAsync a c) = [a]"
| "assertedAddresses (GetModulesAsync a c) = [a]"
| "assertedAddresses (GetModuleStateAsync a m c) = [a, m]"
| "assertedAddresses (AddModuleAsync a m c t) = [a, m]"
| "assertedAddresses (SetManagerAsync a m c t) = [a, m]"
| "assertedAddresses (InitializeModuleAsync a c t) = [a]"
| "assertedAddresses (IsModuleEnabledAsync a m c) = [a, m]"
| "assertedAddresses (IsModulePendingAsync a m c) = [a, m]"

text \<open>What a result of \<open>fetchSetDetailsAsync\<close> shows of the fields of \<open>SetDetails\<close>.\<close>

fun detailsOf :: "SetDetailsResult \<Rightarrow> SetDetails" where
  "detailsOf (Plain d) = d"
| "detailsOf (WithStreamingInfo e) = SetDetails.truncate e"

fun hasStreamingInfo :: "SetDetailsResult \<Rightarrow> bool" where
  "hasStreamingInfo (Plain d) = False"
| "hasStreamingInfo (WithStreamingInfo e) = True"

text \<open>
  A property of the world that a call keeps, and that every method of every wrapper of
  an API object keeps.
\<close>

definition keeps :: "('w \<Rightarrow> bool) \<Rightarrow> ('a, 'w) call \<Rightarrow> bool" where
  "keeps I m = (\<forall>w. I w \<longrightarrow> I (snd (m w)))"

definition wrappersKeep :: "('w \<Rightarrow> bool) \<Rightarrow> 'w SetTokenAPI \<Rightarrow> bool" where
  "wrappersKeep I this =
     ((\<forall>cs us ms m n s c t. keeps I (create (setTokenCreatorWrapper this) cs us ms m n s c t)) \<and>
      (\<forall>h. keeps I (getCreatedSetTokenAddress (protocolUtils this) h)) \<and>
      (\<forall>a ms c. keeps I (getSetDetails (protocolViewerWrapper this) a ms c)) \<and>
      (\<forall>as c. keeps I (batchFetchStreamingFeeInfo (protocolViewerWrapper this) as c)) \<and>
      (\<forall>as ms c. keeps I (batchFetchDetails (protocolViewerWrapper this) as ms c)) \<and>
      (\<forall>ts. keeps I (batchFetchManagers (protocolViewerWrapper this) ts)) \<and>
      (\<forall>ts os c. keeps I (batchFetchBalancesOf (protocolViewerWrapper this) ts os c)) \<and>
      (\<forall>ts os ss c. keeps I (batchFetchAllowances (protocolViewerWrapper this) ts os ss c)) \<and>
      (\<forall>a. keeps I (controller (setTokenWrapper this) a)) \<and>
      (\<forall>a. keeps I (SetTokenWrapper.manager (setTokenWrapper this) a)) \<and>
      (\<forall>a c. keeps I (getPositions (setTokenWrapper this) a c)) \<and>
      (\<forall>a c. keeps I (getModules (setTokenWrapper this) a c)) \<and>
      (\<forall>a m c. keeps I (moduleStates (setTokenWrapper this) a m c)) \<and>
      (\<forall>a m c t. keeps I (addModule (setTokenWrapper this) a m c t)) \<and>
      (\<forall>a m c t. keeps I (setManager (setTokenWrapper this) a m c t)) \<and>
      (\<forall>a c t. keeps I (initializeModule (setTokenWrapper this) a c t)) \<and>
      (\<forall>a m c. keeps I (isInitializedModule (setTokenWrapper this) a m c)) \<and>
      (\<forall>a m c. keeps I (isPendingModule (setTokenWrapper this) a m c)))"

subsection \<open>Wrappers that record their calls\<close>

text \<open>
  For evaluation: wrappers whose world is the list of the requests made so far. Each
  method appends its request and answers as the record \<open>Answers\<close> says. The assertions
  are the default ones, with the usual formats: \<open>0x\<close> and 40 hexadecimal digits for an
  address, \<open>0x\<close> and 64 for a hash.
\<close>

datatype Request =
  Create "Address list" "int list" "Address list" Address string string "Address option"
    TransactionOverrides
| GetCreatedSetTokenAddress string
| GetSetDetails Address "Address list" "Address option"
| BatchFetchStreamingFeeInfo "Address list" "Address option"
| BatchFetchDetails "Address list" "Address list" "Address option"
| BatchFetchManagers "Address list"
| BatchFetchBalancesOf "Address list" "Address list" "Address option"
| BatchFetchAllowances "Address list" "Address list" "Address list" "Address option"
| Controller Address
| Manager Address
| GetPositions Address "Address option"
| GetModules Address "Address option"
| ModuleStates Address Address "Address option"
| AddModule Address Address "Address option" TransactionOverrides
| SetManager Address Address "Address option" TransactionOverrides
| InitializeModule Address "Address option" TransactionOverrides
| IsInitializedModule Address Address "Address option"
| IsPendingModule Address Address "Address option"

record Answers =
  transactionAnswer :: "error + ContractTransaction"
  addressAnswer :: "error + Address"
  setDetailsAnswer :: "error + SetDetails"
  streamingFeeInfoAnswer :: "error + StreamingFeeInfo list"
  detailsListAnswer :: "error + SetDetails list"
  addressesAnswer :: "error + Address list"
  numbersAnswer :: "error + int list"
  positionsAnswer :: "error + Position list"
  moduleStateAnswer :: "error + ModuleState"
  flagAnswer :: "error + bool"

definition answering :: "Request \<Rightarrow> error + 'a \<Rightarrow> ('a, Request list) call" where
  "answering request answer requests = (answer, requests @ [request])"

definition isHex :: "nat \<Rightarrow> string \<Rightarrow> bool" where
  "isHex n v =
     (length v = n + 2 \<and> take 2 v = ''0x'' \<and>
      list_all (\<lambda>c. c \<in> set ''0123456789abcdefABCDEF'') (drop 2 v))"

definition recording :: "Answers \<Rightarrow> Address \<Rightarrow> Request list SetTokenAPI" where
  "recording answers feeModule =
     \<lparr>setTokenWrapper =
        \<lparr>controller = (\<lambda>a. answering (Controller a) (addressAnswer answers)),
         manager = (\<lambda>a. answering (Manager a) (addressAnswer answers)),
         getPositions = (\<lambda>a c. answering (GetPositions a c) (positionsAnswer answers)),
         getModules = (\<lambda>a c. answering (GetModules a c) (addressesAnswer answers)),
         moduleStates = (\<lambda>a m c. answering (ModuleStates a m c) (moduleStateAnswer answers)),
         addModule = (\<lambda>a m c t. answering (AddModule a m c t) (transactionAnswer answers)),
         setManager = (\<lambda>a m c t. answering (SetManager a m c t) (transactionAnswer answers)),
         initializeModule = (\<lambda>a c t.
            answering (InitializeModule a c t) (transactionAnswer answers)),
         isInitializedModule = (\<lambda>a m c.
            answering (IsInitializedModule a m c) (flagAnswer answers)),
         isPendingModule = (\<lambda>a m c. answering (IsPendingModule a m c) (flagAnswer answers))\<rparr>,
      setTokenCreatorWrapper =
        \<lparr>create = (\<lambda>cs us ms m n s c t.
            answering (Create cs us ms m n s c t) (transactionAnswer answers))\<rparr>,
      protocolViewerWrapper =
        \<lparr>getSetDetails = (\<lambda>a ms c. answering (GetSetDetails a ms c) (setDetailsAnswer answers)),
         batchFetchStreamingFeeInfo = (\<lambda>as c.
            answering (BatchFetchStreamingFeeInfo as c) (streamingFeeInfoAnswer answers)),
         batchFetchDetails = (\<lambda>as ms c.
            answering (BatchFetchDetails as ms c) (detailsListAnswer answers)),
         batchFetchManagers = (\<lambda>ts. answering (BatchFetchManagers ts) (addressesAnswer answers)),
         batchFetchBalancesOf = (\<lambda>ts os c.
            answering (BatchFetchBalancesOf ts os c) (numbersAnswer answers)),
         batchFetchAllowances = (\<lambda>ts os ss c.
            answering (BatchFetchAllowances ts os ss c) (numbersAnswer answers))\<rparr>,
      protocolUtils =
        \<lparr>getCreatedSetTokenAddress = (\<lambda>h.
            answering (GetCreatedSetTokenAddress h) (addressAnswer answers))\<rparr>,
      assert = Assertions_new (isHex 40) (isHex 64),
      streamingFeeModuleAddress = feeModule\<rparr>"

text \<open>
  Answers for evaluation: the set details of the fixture \<open>setDetailsResponseBUD\<close>, whose
  one module stands for the streaming fee module, and a fee of 1 percent.
\<close>

definition budSetDetails :: SetDetails where
  "budSetDetails =
     \<lparr>name = ''BUD Set'', symbol = ''BUD'',
      manager = ''0x89A3EFC92f3FAbe59F3DeAa5e5e92773EE29fA37'',
      modules = [''0xE99447aBbD5A7730b26D2D16fCcB2086319e4bC3''],
      moduleStatuses = [0, 0],
      positions =
        [\<lparr>component = ''0x2791Bca1f2de4661ED88A30C99A7a9449Aa84174'',
          module = ''0x0000000000000000000000000000000000000000'',
          unit = 50000000, positionState = 0, data = ''0x''\<rparr>,
         \<lparr>component = ''0x1BFD67037B42Cf73acF2047067bd4F2C47D9BfD6'',
          module = ''0x0000000000000000000000000000000000000000'',
          unit = 88793, positionState = 0, data = ''0x''\<rparr>],
      totalSupply = 10 ^ 18\<rparr>"

definition budAnswers :: Answers where
  "budAnswers =
     \<lparr>transactionAnswer = Inr ''0x01'',
      addressAnswer = Inr ''0x89A3EFC92f3FAbe59F3DeAa5e5e92773EE29fA37'',
      setDetailsAnswer = Inr budSetDetails,
      streamingFeeInfoAnswer =
        Inr [\<lparr>StreamingFeeInfo.feeRecipient = ''0x89A3EFC92f3FAbe59F3DeAa5e5e92773EE29fA37'',
              StreamingFeeInfo.streamingFeePercentage = 10 ^ 16,
              StreamingFeeInfo.unaccruedFees = 0\<rparr>],
      detailsListAnswer = Inr [budSetDetails],
      addressesAnswer = Inr [''0x89A3EFC92f3FAbe59F3DeAa5e5e92773EE29fA37''],
      numbersAnswer = Inr [7],
      positionsAnswer = Inr (positions budSetDetails),
      moduleStateAnswer = Inr PENDING,
      flagAnswer = Inr True\<rparr>"

section \<open>The wrappers as proxies over cached contract handles\<close>

text \<open>
  Modelled from the spec: the classes \<open>SetTokenWrapper\<close> (with the methods the API
  calls), \<open>SetTokenCreatorWrapper\<close>, \<open>ProtocolViewerWrapper\<close> and \<open>ProtocolUtils\<close> are
  not among the sources. The spec: a per-contract wrapper is "a 1:1 typed proxy over a
  remote contract's methods (encode call, send, decode return value, optionally memoize
  the contract instance)"; the connection cache, "given a (kind, address, caller) key",
  returns "a previously constructed connected handle or" constructs and stores "a new
  one", and is the only shared resource. So what the wrappers hold is a
  \<open>ContractWrapper\<close> (the class of the sources) with the objects it allocated, and a
  method loads its contract's handle through it, sends the request and returns the
  decoded answer. The remote side answers every request; for a read it does nothing
  else. \<open>ProtocolUtils\<close> reads a transaction's logs and loads no contract.
\<close>

record Sdk =
  contracts :: "ContractWrapper \<times> heap"
  backend :: "Request \<Rightarrow> Answers"

definition proxy ::
  "(ContractWrapper \<times> heap \<Rightarrow> (error + ref) \<times> ContractWrapper \<times> heap) \<Rightarrow> Request
     \<Rightarrow> (Answers \<Rightarrow> error + 'a) \<Rightarrow> ('a, Sdk) call" where
  "proxy loadContract request decode w =
     (case loadContract (contracts w) of
        (Inl e, st) \<Rightarrow> (Inl e, w\<lparr>contracts := st\<rparr>)
      | (Inr contract, st) \<Rightarrow> (decode (backend w request), w\<lparr>contracts := st\<rparr>))"

definition SetTokenWrapper_new :: "Sdk SetTokenWrapper" where
  "SetTokenWrapper_new =
     \<lparr>controller = (\<lambda>a. proxy (loadSetTokenAsync a None) (Controller a) addressAnswer),
      manager = (\<lambda>a. proxy (loadSetTokenAsync a None) (Manager a) addressAnswer),
      getPositions = (\<lambda>a c. proxy (loadSetTokenAsync a c) (GetPositions a c) positionsAnswer),
      getModules = (\<lambda>a c. proxy (loadSetTokenAsync a c) (GetModules a c) addressesAnswer),
      moduleStates = (\<lambda>a m c.
         proxy (loadSetTokenAsync a c) (ModuleStates a m c) moduleStateAnswer),
      addModule = (\<lambda>a m c t.
         proxy (loadSetTokenAsync a c) (AddModule a m c t) transactionAnswer),
      setManager = (\<lambda>a m c t.
         proxy (loadSetTokenAsync a c) (SetManager a m c t) transactionAnswer),
      initializeModule = (\<lambda>a c t.
         proxy (loadSetTokenAsync a c) (InitializeModule a c t) transactionAnswer),
      isInitializedModule = (\<lambda>a m c.
         proxy (loadSetTokenAsync a c) (IsInitializedModule a m c) flagAnswer),
      isPendingModule = (\<lambda>a m c.
         proxy (loadSetTokenAsync a c) (IsPendingModule a m c) flagAnswer)\<rparr>"

definition SetTokenCreatorWrapper_new :: "Address \<Rightarrow> Sdk SetTokenCreatorWrapper" where
  "SetTokenCreatorWrapper_new setTokenCreatorAddress =
     \<lparr>create = (\<lambda>cs us ms m n s c t.
        proxy (\<lambda>st. loadSetTokenCreatorAsync setTokenCreatorAddress
                       (getSigner (provider (fst st)) c) st)
          (Create cs us ms m n s c t) transactionAnswer)\<rparr>"

definition viewerContract ::
  "Address \<Rightarrow> Address option \<Rightarrow> ContractWrapper \<times> heap
     \<Rightarrow> (error + ref) \<times> ContractWrapper \<times> heap" where
  "viewerContract protocolViewerAddress callerAddress st =
     loadProtocolViewerContractAsync protocolViewerAddress
       (getSigner (provider (fst st)) callerAddress) st"

definition ProtocolViewerWrapper_new :: "Address \<Rightarrow> Address \<Rightarrow> Sdk ProtocolViewerWrapper" where
  "ProtocolViewerWrapper_new protocolViewerAddress streamingFeeModuleAddress' =
     \<lparr>getSetDetails = (\<lambda>a ms c.
        proxy (viewerContract protocolViewerAddress c) (GetSetDetails a ms c) setDetailsAnswer),
      batchFetchStreamingFeeInfo = (\<lambda>as c.
        proxy (viewerContract protocolViewerAddress c) (BatchFetchStreamingFeeInfo as c)
          streamingFeeInfoAnswer),
      batchFetchDetails = (\<lambda>as ms c.
        proxy (viewerContract protocolViewerAddress c) (BatchFetchDetails as ms c)
          detailsListAnswer),
      batchFetchManagers = (\<lambda>ts.
        proxy (viewerContract protocolViewerAddress None) (BatchFetchManagers ts)
          addressesAnswer),
      batchFetchBalancesOf = (\<lambda>ts os c.
        proxy (viewerContract protocolViewerAddress c) (BatchFetchBalancesOf ts os c)
          numbersAnswer),
      batchFetchAllowances = (\<lambda>ts os ss c.
        proxy (viewerContract protocolViewerAddress c) (BatchFetchAllowances ts os ss c)
          numbersAnswer)\<rparr>"

definition ProtocolUtils_new :: "Sdk ProtocolUtils" where
  "ProtocolUtils_new =
     \<lparr>getCreatedSetTokenAddress = (\<lambda>h w.
        (addressAnswer (backend w (GetCreatedSetTokenAddress h)), w))\<rparr>"

text \<open>
  The constructor of \<open>SetTokenAPI\<close>. The provider is the one of the \<open>ContractWrapper\<close>;
  the assertions are the argument given or the default ones, a value of the record
  either way.
\<close>

definition SetTokenAPI_new ::
  "Address \<Rightarrow> Address \<Rightarrow> Address \<Rightarrow> Assertions \<Rightarrow> Sdk SetTokenAPI" where
  "SetTokenAPI_new protocolViewerAddress streamingFeeModuleAddress' setTokenCreatorAddress
       assertions =
     \<lparr>setTokenWrapper = SetTokenWrapper_new,
      setTokenCreatorWrapper = SetTokenCreatorWrapper_new setTokenCreatorAddress,
      protocolViewerWrapper =
        ProtocolViewerWrapper_new protocolViewerAddress streamingFeeModuleAddress',
      protocolUtils = ProtocolUtils_new,
      assert = assertions,
      streamingFeeModuleAddress = streamingFeeModuleAddress'\<rparr>"

text \<open>
  The read operations: all but the four that send a transaction. The request whose
  answer an operation returns, and when a result is the answer given to it
  (\<open>fetchSetDetailsAsync\<close> returns the answer with or without the fee info).
\<close>

fun isRead :: "ApiCall \<Rightarrow> bool" where
  "isRead (CreateAsync cs us ms m n s c t) = False"
| "isRead (AddModuleAsync a m c t) = False"
| "isRead (SetManagerAsync a m c t) = False"
| "isRead (InitializeModuleAsync a c t) = False"
| "isRead c = True"

fun requestOf :: "ApiCall \<Rightarrow> Request" where
  "requestOf (CreateAsync cs us ms m n s c t) = Create cs us ms m n s c t"
| "requestOf (GetSetAddressFromCreateHash h) = GetCreatedSetTokenAddress h"
| "requestOf (FetchSetDetailsAsync a ms c) = GetSetDetails a ms c"
| "requestOf (BatchFetchSetDetailsAsync as ms c) = BatchFetchDetails as ms c"
| "requestOf (BatchFetchManagersAsync ts) = BatchFetchManagers ts"
| "requestOf (BatchFetchBalancesOfAsync ts u c) =
     BatchFetchBalancesOf ts (replicate (length ts) u) c"
| "requestOf (BatchFetchAllowancesAsync ts ow sp c) =
     BatchFetchAllowances ts (replicate (length ts) ow) (replicate (length ts) sp) c"
| "requestOf (GetControllerAddressAsync a) = Controller a"
| "requestOf (GetManagerAddressAsync a) = Manager a"
| "requestOf (GetPositionsAsync a c) = GetPositions a c"
| "requestOf (GetModulesAsync a c) = GetModules a c"
| "requestOf (GetModuleStateAsync a m c) = ModuleStates a m c"
| "requestOf (AddModuleAsync a m c t) = AddModule a m c t"
| "requestOf (SetManagerAsync a m c t) = SetManager a m c t"
| "requestOf (InitializeModuleAsync a c t) = InitializeModule a c t"
| "requestOf (IsModuleEnabledAsync a m c) = IsInitializedModule a m c"
| "requestOf (IsModulePendingAsync a m c) = IsPendingModule a m c"

fun answered :: "Answers \<Rightarrow> ApiResult \<Rightarrow> bool" where
  "answered answers (Transaction t) = (transactionAnswer answers = Inr t)"
| "answered answers (AnAddress a) = (addressAnswer answers = Inr a)"
| "answered answers (Details r) = (setDetailsAnswer answers = Inr (detailsOf r))"
| "answered answers (DetailsList ds) = (detailsListAnswer answers = Inr ds)"
| "answered answers (Addresses as) = (addressesAnswer answers = Inr as)"
| "answered answers (Numbers ns) = (numbersAnswer answers = Inr ns)"
| "answered answers (Positions ps) = (positionsAnswer answers = Inr ps)"
| "answered answers (AState s) = (moduleStateAnswer answers = Inr s)"
| "answered answers (Flag b) = (flagAnswer answers = Inr b)"


text \<open>
  A call changes what the wrappers hold by loads of the \<open>ContractWrapper\<close> only, and by
  the same loads whatever the remote side answers.
\<close>

definition loadsOnly :: "('a, Sdk) call \<Rightarrow> Sdk \<Rightarrow> bool" where
  "loadsOnly m w =
     (\<exists>cs. \<forall>answers. contracts (snd (m (w\<lparr>backend := answers\<rparr>))) = loadAll cs (contracts w))"

text \<open>
  For evaluation: a new \<open>ContractWrapper\<close> over the example provider with a remote side
  that gives the answers of the fixture to every request, an API object over it, a
  batch fetch of balances, and the wrapper-held state after that fetch.
\<close>

definition exampleSdk :: Sdk where
  "exampleSdk = \<lparr>contracts = (ContractWrapper_new exampleProvider, []),
     backend = (\<lambda>request. budAnswers)\<rparr>"

definition exampleAPI :: "Sdk SetTokenAPI" where
  "exampleAPI = SetTokenAPI_new ''0xE99447aBbD5A7730b26D2D16fCcB2086319e4bC3''
     ''0x1BFD67037B42Cf73acF2047067bd4F2C47D9BfD6''
     ''0x2791Bca1f2de4661ED88A30C99A7a9449Aa84174'' (Assertions_new (isHex 40) (isHex 64))"

definition exampleBalances :: ApiCall where
  "exampleBalances = BatchFetchBalancesOfAsync
     [''0x2791Bca1f2de4661ED88A30C99A7a9449Aa84174'',
      ''0x1BFD67037B42Cf73acF2047067bd4F2C47D9BfD6'']
     ''0x89A3EFC92f3FAbe59F3DeAa5e5e92773EE29fA37'' None"

definition exampleLoaded :: Sdk where
  "exampleLoaded = exampleSdk\<lparr>contracts :=
     (\<lparr>provider = exampleProvider,
       cache = [''ProtocolViewer_0xE99447aBbD5A7730b26D2D16fCcB2086319e4bC3_0xA1'' \<mapsto> 0]\<rparr>,
      [\<lparr>factory = ProtocolViewerFactory,
        contractAddress = ''0xE99447aBbD5A7730b26D2D16fCcB2086319e4bC3'',
        contractSigner = getSigner exampleProvider None\<rparr>])\<rparr>"

section \<open>The module lifecycle on the chain\<close>

text \<open>
  Modelled from the spec: the SetToken contract runs on the chain, and the
  \<open>SetTokenWrapper\<close> with \<open>addModule\<close>, \<open>initializeModule\<close> and \<open>moduleStates\<close>
  is not among the sources. The spec: "Transition is driven entirely by remote contract
  calls (addModule \<rightarrow> PENDING, initializeModule \<rightarrow> INITIALIZED); the wrapper only
  observes state", "initializing a non-pending module fails", and a state-violating call
  "fails with a provider-surfaced error string; the wrapper does not interpret or
  recover from it, only propagates it". The reverts and their messages are those the
  tests in \<open>SetTokenWrapper.spec.ts\<close> expect; the module that \<open>initializeModule\<close>
  initializes is the caller.
\<close>

record Chain =
  moduleStateOf :: "Address \<Rightarrow> Address \<Rightarrow> ModuleState"
  managerOf :: "Address \<Rightarrow> Address"
  enabledOnController :: "Address \<Rightarrow> bool"
  isLocked :: "Address \<Rightarrow> bool"
  firstAccount :: Address

text \<open>\<open>callerAddress\<close>: "uses first one on node if none provided".\<close>

definition sender :: "Chain \<Rightarrow> Address option \<Rightarrow> Address" where
  "sender chain callerAddress =
     (case callerAddress of None \<Rightarrow> firstAccount chain | Some a \<Rightarrow> a)"

definition remoteModuleStates ::
  "Address \<Rightarrow> Address \<Rightarrow> Address option \<Rightarrow> (ModuleState, Chain) call" where
  "remoteModuleStates setAddress moduleAddress callerAddress chain =
     (Inr (moduleStateOf chain setAddress moduleAddress), chain)"

definition remoteAddModule ::
  "Address \<Rightarrow> Address \<Rightarrow> Address option \<Rightarrow> TransactionOverrides
     \<Rightarrow> (ContractTransaction, Chain) call" where
  "remoteAddModule setAddress moduleAddress callerAddress txOpts chain =
     (if sender chain callerAddress \<noteq> managerOf chain setAddress
        then (Inl (RemoteError ''Only manager can call''), chain)
      else if moduleStateOf chain setAddress moduleAddress \<noteq> NONE
        then (Inl (RemoteError ''Module must not be added''), chain)
      else if \<not> enabledOnController chain moduleAddress
        then (Inl (RemoteError ''Must be enabled on Controller''), chain)
      else (Inr ''addModule'',
            chain\<lparr>moduleStateOf :=
              (moduleStateOf chain)(setAddress :=
                (moduleStateOf chain setAddress)(moduleAddress := PENDING))\<rparr>))"

definition remoteInitializeModule ::
  "Address \<Rightarrow> Address option \<Rightarrow> TransactionOverrides \<Rightarrow> (ContractTransaction, Chain) call" where
  "remoteInitializeModule setAddress callerAddress txOpts chain =
     (if isLocked chain setAddress
        then (Inl (RemoteError ''Only when unlocked''), chain)
      else if moduleStateOf chain setAddress (sender chain callerAddress) \<noteq> PENDING
        then (Inl (RemoteError ''Module must be pending''), chain)
      else (Inr ''initializeModule'',
            chain\<lparr>moduleStateOf :=
              (moduleStateOf chain)(setAddress :=
                (moduleStateOf chain setAddress)(sender chain callerAddress := INITIALIZED))\<rparr>))"

text \<open>An API object whose \<open>SetTokenWrapper\<close> sends these three calls to the chain.\<close>

definition onChain :: "Chain SetTokenAPI \<Rightarrow> bool" where
  "onChain this =
     (moduleStates (setTokenWrapper this) = remoteModuleStates \<and>
      addModule (setTokenWrapper this) = remoteAddModule \<and>
      initializeModule (setTokenWrapper this) = remoteInitializeModule)"

text \<open>A wrapper method that a model leaves out.\<close>

definition unmodelled :: "('a, 'w) call" where
  "unmodelled w = (Inl (RemoteError ''not modelled''), w)"

text \<open>For evaluation: an API object on the chain, with the default assertions.\<close>

definition chainAPI :: "Chain SetTokenAPI" where
  "chainAPI =
     \<lparr>setTokenWrapper =
        \<lparr>controller = (\<lambda>a. unmodelled),
         manager = (\<lambda>a. unmodelled),
         getPositions = (\<lambda>a c. unmodelled),
         getModules = (\<lambda>a c. unmodelled),
         moduleStates = remoteModuleStates,
         addModule = remoteAddModule,
         setManager = (\<lambda>a m c t. unmodelled),
         initializeModule = remoteInitializeModule,
         isInitializedModule = (\<lambda>a m c. unmodelled),
         isPendingModule = (\<lambda>a m c. unmodelled)\<rparr>,
      setTokenCreatorWrapper = \<lparr>create = (\<lambda>cs us ms m n s c t. unmodelled)\<rparr>,
      protocolViewerWrapper =
        \<lparr>getSetDetails = (\<lambda>a ms c. unmodelled),
         batchFetchStreamingFeeInfo = (\<lambda>as c. unmodelled),
         batchFetchDetails = (\<lambda>as ms c. unmodelled),
         batchFetchManagers = (\<lambda>ts. unmodelled),
         batchFetchBalancesOf = (\<lambda>ts os c. unmodelled),
         batchFetchAllowances = (\<lambda>ts os ss c. unmodelled)\<rparr>,
      protocolUtils = \<lparr>getCreatedSetTokenAddress = (\<lambda>h. unmodelled)\<rparr>,
      assert = Assertions_new (isHex 40) (isHex 64),
      streamingFeeModuleAddress = ''0xE99447aBbD5A7730b26D2D16fCcB2086319e4bC3''\<rparr>"

text \<open>
  A chain for evaluation: the manager of every set is the node's first account, every
  module is enabled on the controller, nothing is locked and no module is added.
\<close>

definition exampleChain :: Chain where
  "exampleChain =
     \<lparr>moduleStateOf = (\<lambda>setAddress moduleAddress. NONE),
      managerOf = (\<lambda>setAddress. ''0x89A3EFC92f3FAbe59F3DeAa5e5e92773EE29fA37''),
      enabledOnController = (\<lambda>moduleAddress. True),
      isLocked = (\<lambda>setAddress. False),
      firstAccount = ''0x89A3EFC92f3FAbe59F3DeAa5e5e92773EE29fA37''\<rparr>"

section \<open>Trade-quote arithmetic on the fixtures\<close>

text \<open>
  Modelled from the spec: the trade-quote aggregator is not among the sources, only the
  fixtures of its tests are. The spec's arithmetic: "USD value = price \<times> raw amount /
  10^decimals", "slippage = (quoted amount - guaranteed amount) / quoted amount", and a
  display amount that "equals buyAmount/10^18". The values are exact reals.
\<close>

definition specDisplayAmount :: "int \<Rightarrow> nat \<Rightarrow> real" where
  "specDisplayAmount raw decimals = real_of_int raw / 10 ^ decimals"

definition specUsdValue :: "real \<Rightarrow> int \<Rightarrow> nat \<Rightarrow> real" where
  "specUsdValue usd raw decimals = usd * real_of_int raw / 10 ^ decimals"

definition specSlippage :: "real \<Rightarrow> real \<Rightarrow> real" where
  "specSlippage quoted guaranteed = (quoted - guaranteed) / quoted"

text \<open>
  A value is shown with a number of decimals as \<open>shown\<close>: the two differ by less than
  half a unit of the last decimal.
\<close>

definition shownAs :: "nat \<Rightarrow> real \<Rightarrow> real \<Rightarrow> bool" where
  "shownAs digits x shown = (\<bar>x - shown\<bar> * 10 ^ digits < 1 / 2)"

text \<open>
  The fixtures of \<open>tradeQuote.ts\<close> for Ethereum: the 0x quote, the decimals of the token
  list, the CoinGecko prices, and the expected trade quote with its display strings
  (\<open>'$1,597.20'\<close> is 1597.20, \<open>'-1.10%'\<close> is -1.10 percent,
  \<open>'0.0192150 ETH'\<close> is 0.0192150; the gas price \<open>'61'\<close> is in gwei).
\<close>

record ZeroExQuote =
  price :: real
  guaranteedPrice :: real
  buyAmount :: int
  sellAmount :: int
  gas :: int

definition zeroExReponseEth :: ZeroExQuote where
  "zeroExReponseEth =
     \<lparr>price = 0.082625382321048146, guaranteedPrice = 0.082625382321048146,
      buyAmount = 41312691160507030, sellAmount = 499999999999793729, gas = 346000\<rparr>"

definition coinGeckoTokenResponseEth :: "(Address \<times> nat) list" where
  "coinGeckoTokenResponseEth =
     [(''0xc02aaa39b223fe8d0a0e5c4f27ead9083c756cc2'', 18),
      (''0x0bc529c00c6401aef6d220be8c6ea1667f6ad93e'', 18),
      (''0x9f8f72aa9304c8b593d555f12ef6589cc3a579a2'', 18)]"

definition coinGeckoPricesResponseEth :: "(Address \<times> real) list" where
  "coinGeckoPricesResponseEth =
     [(''0x0bc529c00c6401aef6d220be8c6ea1667f6ad93e'', 39087),
      (''0x9f8f72aa9304c8b593d555f12ef6589cc3a579a2'', 3194.41),
      (''0xc02aaa39b223fe8d0a0e5c4f27ead9083c756cc2'', 2493.12)]"

record TradeQuote =
  fromTokenAddress :: Address
  toTokenAddress :: Address
  gas :: int
  gasPrice :: int
  fromTokenDisplayAmount :: real
  toTokenDisplayAmount :: real
  fromTokenPriceUsd :: real
  toTokenPriceUsd :: real
  gasCostsChainCurrency :: real
  slippage :: real

definition setTradeQuoteEth :: TradeQuote where
  "setTradeQuoteEth =
     \<lparr>fromTokenAddress = ''0x9f8f72aa9304c8b593d555f12ef6589cc3a579a2'',
      toTokenAddress = ''0x0bc529c00c6401aef6d220be8c6ea1667f6ad93e'',
      gas = 315000,
      gasPrice = 61,
      fromTokenDisplayAmount = 0.4999999999997937,
      toTokenDisplayAmount = 0.04131269116050703,
      fromTokenPriceUsd = 1597.20,
      toTokenPriceUsd = 1614.79,
      gasCostsChainCurrency = 0.0192150,
      slippage = - 1.10\<rparr>"

text \<open>
  The USD value of the amount of a token, by the spec's formula, from the token list's
  decimals and the price feed; 0 for a token that either of them does not list.
\<close>

definition usdOf :: "Address \<Rightarrow> int \<Rightarrow> real" where
  "usdOf token raw =
     (case (map_of coinGeckoPricesResponseEth token, map_of coinGeckoTokenResponseEth token) of
        (Some usd, Some decimals) \<Rightarrow> specUsdValue usd raw decimals
      | _ \<Rightarrow> 0)"

text \<open>
  Modelled from the spec: "gas cost in native currency = gas units \<times> gas price", of the
  aggregator that is not among the sources. The price is in gwei, 10^9 of them one unit
  of the native currency.
\<close>

definition specGasCost :: "int \<Rightarrow> int \<Rightarrow> real" where
  "specGasCost gasUnits gweiPrice = real_of_int (gasUnits * gweiPrice) / 10 ^ 9"

section \<open>Properties of the handle cache\<close>

lemma split_at_first:
  assumes "xs @ c # ys = xs' @ c # ys'" "c \<notin> set xs" "c \<notin> set xs'"
  shows "xs = xs' \<and> ys = ys'"
proof -
  have "takeWhile (\<lambda>x. x \<noteq> c) (xs @ c # ys) = xs"
    using assms(2) by (induction xs) auto
  moreover have "takeWhile (\<lambda>x. x \<noteq> c) (xs' @ c # ys') = xs'"
    using assms(3) by (induction xs') auto
  ultimately have "xs = xs'" using assms(1) by simp
  with assms(1) show ?thesis by simp
qed

lemma split_at_last:
  assumes "xs @ c # ys = xs' @ c # ys'" "c \<notin> set ys" "c \<notin> set ys'"
  shows "xs = xs' \<and> ys = ys'"
proof -
  have "rev ys @ c # rev xs = rev ys' @ c # rev xs'"
    using arg_cong [OF assms(1), of rev] by simp
  then have "rev ys = rev ys' \<and> rev xs = rev xs'"
    using assms(2,3) by (intro split_at_first [of _ c]) simp_all
  then show ?thesis by simp
qed

lemma cacheKeyOf_inject:
  assumes "cacheKeyOf k a s = cacheKeyOf k' a' s'"
    and "CHR ''_'' \<notin> set k" "CHR ''_'' \<notin> set k'"
    and "CHR ''_'' \<notin> set s" "CHR ''_'' \<notin> set s'"
  shows "k = k' \<and> a = a' \<and> s = s'"
proof -
  from assms(1) have eq: "k @ CHR ''_'' # (a @ CHR ''_'' # s) = k' @ CHR ''_'' # (a' @ CHR ''_'' # s')"
    by (simp add: cacheKeyOf_def)
  from split_at_first [OF eq assms(2,3)] have k: "k = k'" and r: "a @ CHR ''_'' # s = a' @ CHR ''_'' # s'"
    by simp_all
  from split_at_last [OF r assms(4,5)] k show ?thesis by simp
qed

lemma kindOf_no_separator: "CHR ''_'' \<notin> set (kindOf c)"
  by (cases c) simp_all

lemma load_loadCached:
  "load c st = loadCached (kindOf c) (factoryOf c) (addressOf c) (signerOf (provider (fst st)) c) st"
  by (cases c)
    (simp_all add: loadControllerContractAsync_def loadERC20Async_def
      loadBasicIssuanceModuleAsync_def loadTradeModuleAsync_def loadSetTokenAsync_def
      loadSetTokenCreatorAsync_def loadStreamingFeeModuleAsync_def
      loadProtocolViewerContractAsync_def)

lemma loadCached_reject:
  "getAddress signer = Inl e \<Longrightarrow> loadCached k f a signer st = (Inl e, st)"
  by (cases st) (simp add: loadCached_def)

lemma loadCached_hit:
  "getAddress signer = Inr sa \<Longrightarrow> cache (fst st) (cacheKeyOf k a sa) = Some r \<Longrightarrow>
   loadCached k f a signer st = (Inr r, st)"
  by (cases st) (simp add: loadCached_def)

lemma loadCached_miss:
  "getAddress signer = Inr sa \<Longrightarrow> cache (fst st) (cacheKeyOf k a sa) = None \<Longrightarrow>
   loadCached k f a signer st =
     (Inr (length (snd st)),
      (fst st)\<lparr>cache := (cache (fst st))(cacheKeyOf k a sa \<mapsto> length (snd st))\<rparr>,
      snd st @ [\<lparr>factory = f, contractAddress = a, contractSigner = signer\<rparr>])"
  by (cases st) (simp add: loadCached_def connect_def)

lemma loadCached_cases:
  obtains (reject) e where "getAddress signer = Inl e" "loadCached k f a signer st = (Inl e, st)"
  | (hit) sa r where "getAddress signer = Inr sa" "cache (fst st) (cacheKeyOf k a sa) = Some r"
      "loadCached k f a signer st = (Inr r, st)"
  | (miss) sa where "getAddress signer = Inr sa" "cache (fst st) (cacheKeyOf k a sa) = None"
      "loadCached k f a signer st =
        (Inr (length (snd st)),
         (fst st)\<lparr>cache := (cache (fst st))(cacheKeyOf k a sa \<mapsto> length (snd st))\<rparr>,
         snd st @ [\<lparr>factory = f, contractAddress = a, contractSigner = signer\<rparr>])"
proof (cases "getAddress signer")
  case (Inl e)
  then show ?thesis using reject loadCached_reject by blast
next
  case (Inr sa)
  show ?thesis
  proof (cases "cache (fst st) (cacheKeyOf k a sa)")
    case None
    then show ?thesis using miss Inr loadCached_miss by blast
  next
    case (Some r)
    then show ?thesis using hit Inr loadCached_hit by blast
  qed
qed

lemma loadCached_provider:
  "provider (fst (snd (loadCached k f a signer st))) = provider (fst st)"
  by (rule loadCached_cases [of signer k f a st]) simp_all

lemma loadCached_keeps:
  assumes "cache (fst st) key = Some r"
  shows "cache (fst (snd (loadCached k f a signer st))) key = Some r"
  by (rule loadCached_cases [of signer k f a st]) (use assms in auto)

lemma loadCached_cacheOk:
  assumes "cacheOk st"
  shows "cacheOk (snd (loadCached k f a signer st))"
proof (rule loadCached_cases [of signer k f a st])
  fix sa
  assume m: "cache (fst st) (cacheKeyOf k a sa) = None"
    and eq: "loadCached k f a signer st =
        (Inr (length (snd st)),
         (fst st)\<lparr>cache := (cache (fst st))(cacheKeyOf k a sa \<mapsto> length (snd st))\<rparr>,
         snd st @ [\<lparr>factory = f, contractAddress = a, contractSigner = signer\<rparr>])"
  from assms have bound: "\<And>k r. cache (fst st) k = Some r \<Longrightarrow> r < length (snd st)"
    and inj: "\<And>k k' r. cache (fst st) k = Some r \<Longrightarrow> cache (fst st) k' = Some r \<Longrightarrow> k = k'"
    unfolding cacheOk_def by blast+
  show ?thesis
    unfolding eq cacheOk_def
    using bound inj by (auto simp: less_Suc_eq split: if_splits)
qed (use assms in simp_all)



lemma load_provider: "provider (fst (snd (load c st))) = provider (fst st)"
  by (simp add: load_loadCached loadCached_provider)

lemma load_keeps:
  "cache (fst st) key = Some r \<Longrightarrow> cache (fst (snd (load c st))) key = Some r"
  by (simp add: load_loadCached loadCached_keeps)

lemma load_cacheOk: "cacheOk st \<Longrightarrow> cacheOk (snd (load c st))"
  by (simp add: load_loadCached loadCached_cacheOk)

lemma loadAll_provider: "provider (fst (loadAll cs st)) = provider (fst st)"
  by (induction cs arbitrary: st) (simp_all add: load_provider)

lemma loadAll_keeps:
  "cache (fst st) key = Some r \<Longrightarrow> cache (fst (loadAll cs st)) key = Some r"
  by (induction cs arbitrary: st) (simp_all add: load_keeps)

lemma loadAll_cacheOk: "cacheOk st \<Longrightarrow> cacheOk (loadAll cs st)"
  by (induction cs arbitrary: st) (simp_all add: load_cacheOk)

lemma load_stores:
  assumes "load c st = (Inr r, st1)"
  shows "\<exists>sa. tupleOf (provider (fst st)) c = Inr (kindOf c, addressOf c, sa) \<and>
              cache (fst st1) (cacheKeyOf (kindOf c) (addressOf c) sa) = Some r"
proof (rule loadCached_cases
    [of "signerOf (provider (fst st)) c" "kindOf c" "factoryOf c" "addressOf c" st])
  fix e
  assume "loadCached (kindOf c) (factoryOf c) (addressOf c) (signerOf (provider (fst st)) c) st = (Inl e, st)"
  with assms show ?thesis by (simp add: load_loadCached)
next
  fix sa r'
  assume "getAddress (signerOf (provider (fst st)) c) = Inr sa"
    "cache (fst st) (cacheKeyOf (kindOf c) (addressOf c) sa) = Some r'"
    "loadCached (kindOf c) (factoryOf c) (addressOf c) (signerOf (provider (fst st)) c) st = (Inr r', st)"
  with assms show ?thesis by (auto simp: load_loadCached tupleOf_def)
next
  fix sa
  assume "getAddress (signerOf (provider (fst st)) c) = Inr sa"
    "cache (fst st) (cacheKeyOf (kindOf c) (addressOf c) sa) = None"
    "loadCached (kindOf c) (factoryOf c) (addressOf c) (signerOf (provider (fst st)) c) st =
        (Inr (length (snd st)),
         (fst st)\<lparr>cache := (cache (fst st))(cacheKeyOf (kindOf c) (addressOf c) sa \<mapsto> length (snd st))\<rparr>,
         snd st @ [\<lparr>factory = factoryOf c, contractAddress = addressOf c,
                     contractSigner = signerOf (provider (fst st)) c\<rparr>])"
  with assms show ?thesis by (auto simp: load_loadCached tupleOf_def)
qed

lemma load_again:
  assumes "tupleOf (provider (fst st)) c = Inr (k, a, sa)"
    and "cache (fst st) (cacheKeyOf k a sa) = Some r"
  shows "load c st = (Inr r, st)"
proof -
  from assms(1) have "getAddress (signerOf (provider (fst st)) c) = Inr sa"
    and "kindOf c = k" and "addressOf c = a"
    by (auto simp: tupleOf_def split: sum.splits)
  with assms(2) show ?thesis
    by (simp add: load_loadCached loadCached_hit)
qed

lemma load_returns:
  assumes "tupleOf (provider (fst st)) c = Inr t"
  shows "\<exists>r. load c st = (Inr r, snd (load c st))"
proof -
  from assms obtain sa where sa: "getAddress (signerOf (provider (fst st)) c) = Inr sa"
    by (auto simp: tupleOf_def split: sum.splits)
  show ?thesis
    unfolding load_loadCached
    by (rule loadCached_cases
        [of "signerOf (provider (fst st)) c" "kindOf c" "factoryOf c" "addressOf c" st])
      (use sa in auto)
qed

text \<open>
  Claim C1, as amended. Take a \<open>load...Async\<close> call, of any of the eight methods, whose
  signer reports an address, in a state whose cache maps different keys to different
  handles (a new wrapper and every state reached from it). The call returns a handle
  \<open>r\<close>. After any number of further calls of the eight methods, a call for the same
  (contract kind, contract address, caller address) tuple returns the reference \<open>r\<close>
  again and leaves the wrapper as it is: it returns the stored entry. Every entry
  stored after the first call is still stored, with the same handle: nothing evicts or
  replaces it. A call for a different tuple returns a handle too, a different
  reference, when the caller addresses of the two tuples hold no \<open>_\<close>, as no
  hexadecimal address does. The caller address of a tuple is the one \<open>getAddress()\<close>
  reports.
\<close>

theorem connection_cache_identity:
  assumes ok: "cacheOk st"
    and p: "p = provider (fst st)"
    and t: "tupleOf p c = Inr t"
    and later: "st2 = loadAll cs (snd (load c st))"
  shows "\<exists>r. load c st = (Inr r, snd (load c st)) \<and>
           (tupleOf p c2 = tupleOf p c \<longrightarrow> load c2 st2 = (Inr r, st2)) \<and>
           (cache (fst (snd (load c st))) key = Some r0 \<longrightarrow> cache (fst st2) key = Some r0) \<and>
           (tupleOf p c3 = Inr t3 \<and> t3 \<noteq> t \<and>
            separatorFree (snd (snd t)) \<and> separatorFree (snd (snd t3)) \<longrightarrow>
              (\<exists>r3. load c3 st2 = (Inr r3, snd (load c3 st2)) \<and> r3 \<noteq> r))"
proof -
  let ?st1 = "snd (load c st)"
  from load_returns [of st c t] p t obtain r where first: "load c st = (Inr r, ?st1)"
    by auto
  from load_stores [OF first] p obtain sa
    where tc: "tupleOf p c = Inr (kindOf c, addressOf c, sa)"
      and stored: "cache (fst ?st1) (cacheKeyOf (kindOf c) (addressOf c) sa) = Some r"
    by blast
  have p1: "provider (fst ?st1) = p" by (simp add: p load_provider)
  have p2: "provider (fst st2) = p" by (simp add: later loadAll_provider p1)
  have ok2: "cacheOk st2" by (simp add: later loadAll_cacheOk load_cacheOk ok)
  have stored2: "cache (fst st2) (cacheKeyOf (kindOf c) (addressOf c) sa) = Some r"
    by (simp add: later loadAll_keeps stored)
  have same: "load c2 st2 = (Inr r, st2)" if "tupleOf p c2 = tupleOf p c"
    using that tc stored2 load_again [of st2 c2] p2 by simp
  have kept: "cache (fst st2) key = Some r0" if "cache (fst ?st1) key = Some r0"
    using that by (simp add: later loadAll_keeps)
  have other: "\<exists>r3. load c3 st2 = (Inr r3, snd (load c3 st2)) \<and> r3 \<noteq> r"
    if t3: "tupleOf p c3 = Inr t3" and ne: "t3 \<noteq> t"
      and sf: "separatorFree (snd (snd t))" "separatorFree (snd (snd t3))"
  proof -
    let ?st3 = "snd (load c3 st2)"
    from load_returns [of st2 c3 t3] p2 t3 obtain r3 where l3: "load c3 st2 = (Inr r3, ?st3)"
      by auto
    have "r3 \<noteq> r"
    proof
      assume eq: "r3 = r"
      from load_stores [OF l3] p2 obtain sa3
        where tc3: "tupleOf p c3 = Inr (kindOf c3, addressOf c3, sa3)"
          and stored3: "cache (fst ?st3) (cacheKeyOf (kindOf c3) (addressOf c3) sa3) = Some r3"
        by auto
      have "cache (fst ?st3) (cacheKeyOf (kindOf c) (addressOf c) sa) = Some r"
        using load_keeps [OF stored2, of c3] by simp
      moreover have "cacheOk ?st3" using load_cacheOk [OF ok2, of c3] by simp
      ultimately have "cacheKeyOf (kindOf c3) (addressOf c3) sa3 = cacheKeyOf (kindOf c) (addressOf c) sa"
        using stored3 eq unfolding cacheOk_def by blast
      moreover have "CHR ''_'' \<notin> set sa" "CHR ''_'' \<notin> set sa3"
        using sf t t3 tc tc3 by (auto simp: separatorFree_def)
      ultimately have "kindOf c3 = kindOf c \<and> addressOf c3 = addressOf c \<and> sa3 = sa"
        by (intro cacheKeyOf_inject) (simp_all add: kindOf_no_separator)
      with t t3 tc tc3 ne show False by simp
    qed
    with l3 show ?thesis by blast
  qed
  from first same kept other show ?thesis by blast
qed

lemmas example_simps =
  loadControllerContractAsync_def loadSetTokenAsync_def loadERC20Async_def loadTradeModuleAsync_def
  loadCached_def connect_def cacheKeyOf_def
  ContractWrapper_new_def exampleProvider_def tupleOf_def

text \<open>
  Claim C1 as stated fails: the key joins kind, address and caller address with \<open>_\<close>,
  so the tuples (Controller, \<open>a_b\<close>, \<open>c\<close>) and (Controller, \<open>a\<close>, \<open>b_c\<close>) have one
  key, and the second load returns the handle of the first.
\<close>

theorem separator_in_address_shares_handle:
  "tupleOf exampleProvider (LoadController ''a_b'' \<lparr>getAddress = Inr ''c''\<rparr>) =
     Inr (''Controller'', ''a_b'', ''c'') \<and>
   tupleOf exampleProvider (LoadController ''a'' \<lparr>getAddress = Inr ''b_c''\<rparr>) =
     Inr (''Controller'', ''a'', ''b_c'') \<and>
   (''Controller'', ''a_b'', ''c'') \<noteq> (''Controller'', ''a'', ''b_c'') \<and>
   fst (load (LoadController ''a_b'' \<lparr>getAddress = Inr ''c''\<rparr>)
          (ContractWrapper_new exampleProvider, [])) = Inr 0 \<and>
   fst (load (LoadController ''a'' \<lparr>getAddress = Inr ''b_c''\<rparr>)
          (snd (load (LoadController ''a_b'' \<lparr>getAddress = Inr ''c''\<rparr>)
             (ContractWrapper_new exampleProvider, [])))) = Inr 0"
  by (simp add: example_simps)

theorem connection_cache_identity_witness:
  "cacheOk (ContractWrapper_new exampleProvider, []) \<and>
   tupleOf exampleProvider (LoadSetToken ''0x5E'' None) = Inr (''SetToken'', ''0x5E'', ''0xA1'') \<and>
   tupleOf exampleProvider (LoadSetToken ''0x5E'' (Some ''0xA1'')) =
     tupleOf exampleProvider (LoadSetToken ''0x5E'' None) \<and>
   tupleOf exampleProvider (LoadERC20 ''0x5E'' None) = Inr (''ERC20'', ''0x5E'', ''0xA1'') \<and>
   separatorFree ''0xA1'' \<and>
   (\<exists>r. load (LoadSetToken ''0x5E'' None) (ContractWrapper_new exampleProvider, []) =
          (Inr r, snd (load (LoadSetToken ''0x5E'' None) (ContractWrapper_new exampleProvider, []))) \<and>
        fst (load (LoadSetToken ''0x5E'' (Some ''0xA1''))
          (loadAll [LoadTradeModule ''0x7A'' None]
             (snd (load (LoadSetToken ''0x5E'' None) (ContractWrapper_new exampleProvider, []))))) =
          Inr r \<and>
        (\<exists>r3. fst (load (LoadERC20 ''0x5E'' None)
            (loadAll [LoadTradeModule ''0x7A'' None]
               (snd (load (LoadSetToken ''0x5E'' None) (ContractWrapper_new exampleProvider, []))))) =
            Inr r3 \<and> r3 \<noteq> r))"
proof -
  let ?st = "(ContractWrapper_new exampleProvider, [])"
  let ?c = "LoadSetToken ''0x5E'' None"
  let ?c2 = "LoadSetToken ''0x5E'' (Some ''0xA1'')"
  let ?c3 = "LoadERC20 ''0x5E'' None"
  let ?st2 = "loadAll [LoadTradeModule ''0x7A'' None] (snd (load ?c ?st))"
  have ok: "cacheOk ?st"
    by (simp add: cacheOk_def ContractWrapper_new_def)
  have p: "exampleProvider = provider (fst ?st)"
    by (simp add: ContractWrapper_new_def)
  have t: "tupleOf exampleProvider ?c = Inr (''SetToken'', ''0x5E'', ''0xA1'')"
    and t2: "tupleOf exampleProvider ?c2 = tupleOf exampleProvider ?c"
    and t3: "tupleOf exampleProvider ?c3 = Inr (''ERC20'', ''0x5E'', ''0xA1'')"
    by (simp_all add: example_simps)
  have sf: "separatorFree ''0xA1''"
    by (simp add: separatorFree_def)
  from connection_cache_identity
    [where st = ?st and p = exampleProvider and c = ?c and t = "(''SetToken'', ''0x5E'', ''0xA1'')"
      and ?st2.0 = ?st2 and cs = "[LoadTradeModule ''0x7A'' None]" and ?c2.0 = ?c2
      and ?c3.0 = ?c3 and ?t3.0 = "(''ERC20'', ''0x5E'', ''0xA1'')", OF ok p t refl]
  obtain r where r: "load ?c ?st = (Inr r, snd (load ?c ?st))"
    and same: "tupleOf exampleProvider ?c2 = tupleOf exampleProvider ?c \<longrightarrow>
      load ?c2 ?st2 = (Inr r, ?st2)"
    and other: "tupleOf exampleProvider ?c3 = Inr (''ERC20'', ''0x5E'', ''0xA1'') \<and>
      (''ERC20'', ''0x5E'', ''0xA1'') \<noteq> (''SetToken'', ''0x5E'', ''0xA1'') \<and>
      separatorFree (snd (snd (''SetToken'', ''0x5E'', ''0xA1''))) \<and>
      separatorFree (snd (snd (''ERC20'', ''0x5E'', ''0xA1''))) \<longrightarrow>
      (\<exists>r3. load ?c3 ?st2 = (Inr r3, snd (load ?c3 ?st2)) \<and> r3 \<noteq> r)"
    by blast
  from same t2 have "load ?c2 ?st2 = (Inr r, ?st2)"
    by (rule mp)
  then have s: "fst (load ?c2 ?st2) = Inr r"
    by (simp only: fst_conv)
  from other t3 sf obtain r3 where l3: "load ?c3 ?st2 = (Inr r3, snd (load ?c3 ?st2))"
    and ne: "r3 \<noteq> r"
    by auto
  from arg_cong [OF l3, of fst] have "fst (load ?c3 ?st2) = Inr r3"
    by (simp only: fst_conv)
  with ne have o: "\<exists>r3. fst (load ?c3 ?st2) = Inr r3 \<and> r3 \<noteq> r"
    by blast
  from r s o have "\<exists>r. load ?c ?st = (Inr r, snd (load ?c ?st)) \<and> fst (load ?c2 ?st2) = Inr r \<and>
      (\<exists>r3. fst (load ?c3 ?st2) = Inr r3 \<and> r3 \<noteq> r)"
    by blast
  with ok t t2 t3 sf show ?thesis
    by (intro conjI)
qed

section \<open>Properties of SetTokenAPI\<close>

lemma Assertions_new_sel:
  "isNotEmptyArray (common (Assertions_new A H)) xs msg =
     (if xs = [] then Inl (ValidationError msg) else Inr ())"
  "isEqualLength (common (Assertions_new A H)) xs ys msg =
     (if length xs \<noteq> length ys then Inl (ValidationError msg) else Inr ())"
  "isValidAddress (schema (Assertions_new A H)) n v =
     (if A v then Inr () else Inl (ValidationError n))"
  "isValidAddressList (schema (Assertions_new A H)) n vs =
     (if list_all A vs then Inr () else Inl (ValidationError n))"
  "isValidBytes32 (schema (Assertions_new A H)) n v =
     (if H v then Inr () else Inl (ValidationError n))"
  by (simp_all add: Assertions_new_def)

lemma check_rejects:
  "check (Inl e) rest = (\<lambda>w. (Inl e, w))"
  by (rule ext) (simp add: check_def)

lemma check_passes: "check (Inr u) rest = rest"
  by (rule ext) (simp add: check_def)

lemmas api_defs =
  createAsync_def getSetAddressFromCreateHash_def fetchSetDetailsAsync_def
  batchFetchSetDetailsAsync_def batchFetchManagersAsync_def batchFetchBalancesOfAsync_def
  batchFetchAllowancesAsync_def getControllerAddressAsync_def getManagerAddressAsync_def
  getPositionsAsync_def getModulesAsync_def getModuleStateAsync_def addModuleAsync_def
  setManagerAsync_def initializeModuleAsync_def isModuleEnabledAsync_def
  isModulePendingAsync_def

lemma rejected_returning:
  "(\<exists>msg. m w = (Inl (ValidationError msg), w)) \<Longrightarrow>
   \<exists>msg. returning f m w = (Inl (ValidationError msg), w)"
  by (auto simp: returning_def)

text \<open>
  With the default assertions, a malformed address in an argument that the operation
  hands to \<open>isValidAddress\<close> or \<open>isValidAddressList\<close> makes the operation reject with
  the assertion's error, and the world is untouched: this holds for every implementation
  of the wrappers, so no wrapper method was called, hence no remote call made.
\<close>

lemma asserted_address_rejected:
  assumes "assert api = Assertions_new isAddress isHash"
    and "a \<in> set (assertedAddresses c)"
    and "\<not> isAddress a"
  shows "\<exists>msg. perform api c w = (Inl (ValidationError msg), w)"
proof (cases c)
  case (CreateAsync cs us ms m n s caller t)
  with assms(2) have "\<not> list_all isAddress cs \<or> \<not> list_all isAddress ms \<or> \<not> isAddress m"
    using assms(3) by (auto simp: list_all_iff)
  then show ?thesis
    unfolding CreateAsync perform.simps
    by (intro rejected_returning)
      (auto simp: createAsync_def assms(1) Assertions_new_sel check_def)
next
  case (BatchFetchBalancesOfAsync ts u caller)
  show ?thesis
  proof (cases "isAddress u")
    case False
    then show ?thesis
      unfolding BatchFetchBalancesOfAsync perform.simps
      by (intro rejected_returning)
        (simp add: batchFetchBalancesOfAsync_def assms(1) Assertions_new_sel check_def)
  next
    case True
    with assms(2,3) BatchFetchBalancesOfAsync have "a \<in> set ts" by auto
    then have "mapE (\<lambda>tokenAddress.
        case (if isAddress tokenAddress then Inr () else Inl (ValidationError ''tokenAddress'')) of
          Inl e \<Rightarrow> Inl e | Inr _ \<Rightarrow> Inr u) ts = Inl (ValidationError ''tokenAddress'')"
      using assms(3) by (induction ts) (auto split: sum.splits)
    with True show ?thesis
      unfolding BatchFetchBalancesOfAsync perform.simps
      by (intro rejected_returning)
        (simp add: batchFetchBalancesOfAsync_def assms(1) Assertions_new_sel check_def)
  qed
next
  case (BatchFetchAllowancesAsync ts ow sp caller)
  show ?thesis
  proof (cases "isAddress ow \<and> isAddress sp")
    case False
    then show ?thesis
      unfolding BatchFetchAllowancesAsync perform.simps
      by (intro rejected_returning)
        (auto simp: batchFetchAllowancesAsync_def assms(1) Assertions_new_sel check_def)
  next
    case True
    with assms(2,3) BatchFetchAllowancesAsync have "a \<in> set ts" by auto
    then have "forEachE (\<lambda>tokenAddress (ownerAddresses, spenderAddresses).
        case (if isAddress tokenAddress then Inr () else Inl (ValidationError ''tokenAddress'')) of
          Inl e \<Rightarrow> Inl e
        | Inr _ \<Rightarrow> Inr (ownerAddresses @ [ow], spenderAddresses @ [sp])) ts s
        = Inl (ValidationError ''tokenAddress'')" for s
      using assms(3) by (induction ts arbitrary: s) (auto split: sum.splits prod.splits)
    with True show ?thesis
      unfolding BatchFetchAllowancesAsync perform.simps
      by (intro rejected_returning)
        (simp add: batchFetchAllowancesAsync_def assms(1) Assertions_new_sel check_def)
  qed
qed (use assms in \<open>auto simp: api_defs Assertions_new_sel check_def returning_def list_all_iff\<close>)

lemma await_Inl: "m w = (Inl e, w1) \<Longrightarrow> await m f w = (Inl e, w1)"
  by (simp add: await_def)

lemma await_Inr: "m w = (Inr x, w1) \<Longrightarrow> await m f w = f x w1"
  by (simp add: await_def)

text \<open>
  Claim C10. Let the assertions pass and the viewer return the details \<open>d\<close>. If the
  streaming fee module is not among \<open>d\<close>'s modules, \<open>fetchSetDetailsAsync\<close> returns
  \<open>d\<close> itself. If it is, and the fee info is fetched, it returns \<open>d\<close> extended by
  \<open>feeRecipient\<close>, \<open>streamingFeePercentage\<close> and \<open>unaccruedFees\<close> of the first
  info. Whatever it returns has the three fields if and only if the module is among
  \<open>d\<close>'s modules, and its \<open>SetDetails\<close> fields are those of \<open>d\<close>.
\<close>

theorem fetchSetDetails_streaming_fee:
  assumes v1: "isValidAddress (schema (assert api)) ''setTokenAddress'' a = Inr ()"
    and v2: "isValidAddressList (schema (assert api)) ''moduleAddresses'' ms = Inr ()"
    and d: "getSetDetails (protocolViewerWrapper api) a ms c w = (Inr d, w1)"
  shows "(streamingFeeModuleAddress api \<notin> set (modules d) \<longrightarrow>
            fetchSetDetailsAsync api a ms c w = (Inr (Plain d), w1)) \<and>
         (streamingFeeModuleAddress api \<in> set (modules d) \<and>
          batchFetchStreamingFeeInfo (protocolViewerWrapper api) [a] c w1 = (Inr (info # rest), w2) \<longrightarrow>
            fetchSetDetailsAsync api a ms c w =
              (Inr (WithStreamingInfo (SetDetails.extend d
                 \<lparr>feeRecipient = StreamingFeeInfo.feeRecipient info,
                  streamingFeePercentage = StreamingFeeInfo.streamingFeePercentage info,
                  unaccruedFees = StreamingFeeInfo.unaccruedFees info\<rparr>)), w2)) \<and>
         (fetchSetDetailsAsync api a ms c w = (Inr r, w') \<longrightarrow>
            (hasStreamingInfo r \<longleftrightarrow> streamingFeeModuleAddress api \<in> set (modules d)) \<and>
            detailsOf r = d)"
proof -
  have run: "fetchSetDetailsAsync api a ms c w =
      (if streamingFeeModuleAddress api \<notin> set (modules d) then (Inr (Plain d), w1)
       else await (batchFetchStreamingFeeInfo (protocolViewerWrapper api) [a] c)
         (\<lambda>infos w.
            case infos of
              [] \<Rightarrow> (Inl (TypeError ''Cannot read property feeRecipient of undefined''), w)
            | streamingFeeInfo # _ \<Rightarrow>
                (Inr (WithStreamingInfo (SetDetails.extend d
                   \<lparr>feeRecipient = StreamingFeeInfo.feeRecipient streamingFeeInfo,
                    streamingFeePercentage = StreamingFeeInfo.streamingFeePercentage streamingFeeInfo,
                    unaccruedFees = StreamingFeeInfo.unaccruedFees streamingFeeInfo\<rparr>)), w)) w1)"
    by (simp add: fetchSetDetailsAsync_def v1 v2 check_passes await_def [of "getSetDetails (protocolViewerWrapper api) a ms c"] d)
  have plain: "fetchSetDetailsAsync api a ms c w = (Inr (Plain d), w1)"
    if "streamingFeeModuleAddress api \<notin> set (modules d)"
    using that by (simp add: run)
  have enriched: "fetchSetDetailsAsync api a ms c w =
      (Inr (WithStreamingInfo (SetDetails.extend d
         \<lparr>feeRecipient = StreamingFeeInfo.feeRecipient info,
          streamingFeePercentage = StreamingFeeInfo.streamingFeePercentage info,
          unaccruedFees = StreamingFeeInfo.unaccruedFees info\<rparr>)), w2)"
    if "streamingFeeModuleAddress api \<in> set (modules d)"
      and "batchFetchStreamingFeeInfo (protocolViewerWrapper api) [a] c w1 = (Inr (info # rest), w2)"
    using that by (simp add: run await_Inr)
  have shape: "(hasStreamingInfo r \<longleftrightarrow> streamingFeeModuleAddress api \<in> set (modules d)) \<and>
      detailsOf r = d"
    if r: "fetchSetDetailsAsync api a ms c w = (Inr r, w')"
  proof (cases "streamingFeeModuleAddress api \<in> set (modules d)")
    case False
    with r plain show ?thesis by auto
  next
    case True
    obtain res w3 where f: "batchFetchStreamingFeeInfo (protocolViewerWrapper api) [a] c w1 = (res, w3)"
      by (cases "batchFetchStreamingFeeInfo (protocolViewerWrapper api) [a] c w1")
    show ?thesis
    proof (cases res)
      case (Inl e)
      with r True f show ?thesis by (simp add: run await_Inl)
    next
      case (Inr infos)
      with r True f show ?thesis
        by (cases infos)
          (auto simp: run await_Inr SetDetails.extend_def SetDetails.truncate_def)
    qed
  qed
  from plain enriched shape show ?thesis by blast
qed

text \<open>
  Claim C6. \<open>fetchSetDetailsAsync\<close> is the operation of the API that issues more than
  one request. If the request for the set details fails, it fails with that error; if
  that request succeeds and the request for the streaming fee info fails, it fails with
  that error, and the details already fetched are not returned. In both cases the world
  is the one the failed request left: nothing is requested after the failure.
\<close>

theorem fetchSetDetails_fails_fast:
  assumes v1: "isValidAddress (schema (assert api)) ''setTokenAddress'' a = Inr ()"
    and v2: "isValidAddressList (schema (assert api)) ''moduleAddresses'' ms = Inr ()"
  shows "(getSetDetails (protocolViewerWrapper api) a ms c w = (Inl e, w1) \<longrightarrow>
            fetchSetDetailsAsync api a ms c w = (Inl e, w1)) \<and>
         (getSetDetails (protocolViewerWrapper api) a ms c w = (Inr d, w1) \<and>
          streamingFeeModuleAddress api \<in> set (modules d) \<and>
          batchFetchStreamingFeeInfo (protocolViewerWrapper api) [a] c w1 = (Inl e, w2) \<longrightarrow>
            fetchSetDetailsAsync api a ms c w = (Inl e, w2))"
  by (auto simp: fetchSetDetailsAsync_def v1 v2 check_passes await_Inl await_Inr)

lemma mapE_all_pass:
  assumes "list_all (\<lambda>t. f t = Inr ()) ts"
  shows "mapE (\<lambda>t. case f t of Inl e \<Rightarrow> Inl e | Inr _ \<Rightarrow> Inr u) ts = Inr (replicate (length ts) u)"
  using assms by (induction ts) simp_all

lemma mapE_some_fail:
  assumes "\<not> list_all (\<lambda>t. f t = Inr ()) ts"
  shows "\<exists>e. mapE (\<lambda>t. case f t of Inl e \<Rightarrow> Inl e | Inr _ \<Rightarrow> Inr u) ts = Inl e"
  using assms by (induction ts) (auto split: sum.splits)

lemma forEachE_all_pass:
  assumes "list_all (\<lambda>t. f t = Inr ()) ts"
  shows "forEachE (\<lambda>t (os, ss). case f t of Inl e \<Rightarrow> Inl e | Inr _ \<Rightarrow> Inr (os @ [ow], ss @ [sp]))
           ts (os0, ss0) =
         Inr (os0 @ replicate (length ts) ow, ss0 @ replicate (length ts) sp)"
  using assms by (induction ts arbitrary: os0 ss0) (simp_all add: replicate_app_Cons_same)

lemma forEachE_some_fail:
  assumes "\<not> list_all (\<lambda>t. f t = Inr ()) ts"
  shows "\<exists>e. forEachE (\<lambda>t (os, ss). case f t of Inl e \<Rightarrow> Inl e | Inr _ \<Rightarrow> Inr (os @ [ow], ss @ [sp]))
           ts (os0, ss0) = Inl e"
  using assms by (induction ts arbitrary: os0 ss0) (auto split: sum.splits)

lemma not_passed: "(a :: error + unit) \<noteq> Inr () \<Longrightarrow> \<exists>e. a = Inl e"
  by (cases a) auto

text \<open>
  Claim C9. Whatever the token list and the assertions are: when the assertions pass,
  \<open>batchFetchBalancesOfAsync\<close> calls the viewer with the token list and an owner array
  of the same length, every element the user address, and \<open>batchFetchAllowancesAsync\<close>
  with owner and spender arrays of that length, every element the owner and the spender
  address; when an assertion throws, the operation rejects and no call is made.
\<close>

theorem batch_parallel_arrays_aligned:
  "(isValidAddress (schema (assert api)) ''userAddress'' u = Inr () \<and>
    list_all (\<lambda>t. isValidAddress (schema (assert api)) ''tokenAddress'' t = Inr ()) ts \<longrightarrow>
      batchFetchBalancesOfAsync api ts u c w =
        batchFetchBalancesOf (protocolViewerWrapper api) ts (replicate (length ts) u) c w) \<and>
   (\<not> (isValidAddress (schema (assert api)) ''userAddress'' u = Inr () \<and>
       list_all (\<lambda>t. isValidAddress (schema (assert api)) ''tokenAddress'' t = Inr ()) ts) \<longrightarrow>
      (\<exists>e. batchFetchBalancesOfAsync api ts u c w = (Inl e, w))) \<and>
   (isValidAddress (schema (assert api)) ''ownerAddress'' ow = Inr () \<and>
    isValidAddress (schema (assert api)) ''spenderAddress'' sp = Inr () \<and>
    list_all (\<lambda>t. isValidAddress (schema (assert api)) ''tokenAddress'' t = Inr ()) ts \<longrightarrow>
      batchFetchAllowancesAsync api ts ow sp c w =
        batchFetchAllowances (protocolViewerWrapper api) ts
          (replicate (length ts) ow) (replicate (length ts) sp) c w) \<and>
   (\<not> (isValidAddress (schema (assert api)) ''ownerAddress'' ow = Inr () \<and>
       isValidAddress (schema (assert api)) ''spenderAddress'' sp = Inr () \<and>
       list_all (\<lambda>t. isValidAddress (schema (assert api)) ''tokenAddress'' t = Inr ()) ts) \<longrightarrow>
      (\<exists>e. batchFetchAllowancesAsync api ts ow sp c w = (Inl e, w)))"
proof -
  let ?ok = "\<lambda>n v. isValidAddress (schema (assert api)) n v = Inr ()"
  have b1: "batchFetchBalancesOfAsync api ts u c w =
      batchFetchBalancesOf (protocolViewerWrapper api) ts (replicate (length ts) u) c w"
    if "?ok ''userAddress'' u" "list_all (?ok ''tokenAddress'') ts"
    using that mapE_all_pass [of "isValidAddress (schema (assert api)) ''tokenAddress''" ts u]
    by (simp add: batchFetchBalancesOfAsync_def check_passes)
  have b2: "\<exists>e. batchFetchBalancesOfAsync api ts u c w = (Inl e, w)"
    if "\<not> (?ok ''userAddress'' u \<and> list_all (?ok ''tokenAddress'') ts)"
  proof (cases "?ok ''userAddress'' u")
    case False
    then obtain e where "isValidAddress (schema (assert api)) ''userAddress'' u = Inl e"
      using not_passed by blast
    then show ?thesis by (simp add: batchFetchBalancesOfAsync_def check_rejects)
  next
    case True
    with that have "\<not> list_all (?ok ''tokenAddress'') ts" by simp
    from mapE_some_fail [OF this, of u] True show ?thesis
      by (auto simp: batchFetchBalancesOfAsync_def check_passes)
  qed
  have a1: "batchFetchAllowancesAsync api ts ow sp c w =
      batchFetchAllowances (protocolViewerWrapper api) ts
        (replicate (length ts) ow) (replicate (length ts) sp) c w"
    if "?ok ''ownerAddress'' ow" "?ok ''spenderAddress'' sp" "list_all (?ok ''tokenAddress'') ts"
    using that
      forEachE_all_pass [of "isValidAddress (schema (assert api)) ''tokenAddress''" ts ow sp "[]" "[]"]
    by (simp add: batchFetchAllowancesAsync_def check_passes)
  have a2: "\<exists>e. batchFetchAllowancesAsync api ts ow sp c w = (Inl e, w)"
    if n: "\<not> (?ok ''ownerAddress'' ow \<and> ?ok ''spenderAddress'' sp \<and> list_all (?ok ''tokenAddress'') ts)"
  proof (cases "?ok ''ownerAddress'' ow")
    case False
    then obtain e where "isValidAddress (schema (assert api)) ''ownerAddress'' ow = Inl e"
      using not_passed by blast
    then show ?thesis by (simp add: batchFetchAllowancesAsync_def check_rejects)
  next
    case o: True
    show ?thesis
    proof (cases "?ok ''spenderAddress'' sp")
      case False
      then obtain e where "isValidAddress (schema (assert api)) ''spenderAddress'' sp = Inl e"
        using not_passed by blast
      with o show ?thesis by (simp add: batchFetchAllowancesAsync_def check_rejects check_passes)
    next
      case True
      with o n have "\<not> list_all (?ok ''tokenAddress'') ts" by simp
      from forEachE_some_fail [OF this, of ow sp "[]" "[]"] o True show ?thesis
        by (auto simp: batchFetchAllowancesAsync_def check_passes)
    qed
  qed
  from b1 b2 a1 a2 show ?thesis by blast
qed

lemma isHex_examples:
  "isHex 40 ''0x1494ca1f11d487c2bbe4543e90080aeba4ba3c2b''"
  "isHex 40 ''0x89A3EFC92f3FAbe59F3DeAa5e5e92773EE29fA37''"
  "isHex 40 ''0xE99447aBbD5A7730b26D2D16fCcB2086319e4bC3''"
  "isHex 40 ''0x2791Bca1f2de4661ED88A30C99A7a9449Aa84174''"
  "isHex 40 ''0x1BFD67037B42Cf73acF2047067bd4F2C47D9BfD6''"
  "\<not> isHex 40 ''0x1BFD67037B42Cf73acF2047067bd4F2C''"
  "\<not> isHex 40 ''vitalik.eth''"
  by (simp_all add: isHex_def)

text \<open>
  Claim C3. \<open>createAsync\<close> is the operation that takes component addresses and units
  as parallel arrays. With the default assertions, arrays of different lengths make it
  reject with an assertion's error (that of the empty array when there is no component),
  and the world is untouched, whatever the wrappers are: no remote call is made.
\<close>

theorem mismatched_lengths_rejected:
  assumes "assert api = Assertions_new isAddress isHash"
    and "length componentAddresses \<noteq> length units"
  shows "createAsync api componentAddresses units moduleAddresses managerAddress n s caller txOpts w =
           (Inl (ValidationError
              (if componentAddresses = []
               then ''Component addresses must contain at least one component.''
               else ''Component addresses and units must be equal length.'')), w)"
  using assms by (simp add: createAsync_def Assertions_new_sel check_def)

lemma keeps_check: "I w \<Longrightarrow> keeps I m \<Longrightarrow> I (snd (check a m w))"
  by (cases a) (simp_all add: check_def keeps_def)

lemma keeps_await:
  "I w \<Longrightarrow> keeps I m \<Longrightarrow> (\<And>x. keeps I (f x)) \<Longrightarrow> I (snd (await m f w))"
  unfolding keeps_def await_def
  by (cases "m w") (auto split: sum.splits dest: spec [of _ w])

lemma keeps_returning: "I (snd (m w)) \<Longrightarrow> I (snd (returning f m w))"
  by (cases "m w") (auto simp: returning_def split: sum.splits)

lemma keepsI: "(\<And>w. I w \<Longrightarrow> I (snd (m w))) \<Longrightarrow> keeps I m"
  by (simp add: keeps_def)

lemma keepsD: "keeps I m \<Longrightarrow> I w \<Longrightarrow> I (snd (m w))"
  by (simp add: keeps_def)

lemma keeps_checked: "keeps I m \<Longrightarrow> keeps I (check a m)"
  by (rule keepsI) (simp add: keeps_check)


lemma keeps_op:
  assumes k: "wrappersKeep I api"
  shows "keeps I (createAsync api cs us ms m n s c t)"
    and "keeps I (getSetAddressFromCreateHash api h)"
    and "keeps I (batchFetchSetDetailsAsync api as ms c)"
    and "keeps I (batchFetchManagersAsync api ts)"
    and "keeps I (getControllerAddressAsync api a)"
    and "keeps I (getManagerAddressAsync api a)"
    and "keeps I (getPositionsAsync api a c)"
    and "keeps I (getModulesAsync api a c)"
    and "keeps I (getModuleStateAsync api a m c)"
    and "keeps I (addModuleAsync api a m c t)"
    and "keeps I (setManagerAsync api a m c t)"
    and "keeps I (initializeModuleAsync api a c t)"
    and "keeps I (isModuleEnabledAsync api a m c)"
    and "keeps I (isModulePendingAsync api a m c)"
  using k unfolding api_defs wrappersKeep_def
  by (simp_all add: keeps_checked)

lemma keeps_fetchSetDetailsAsync:
  assumes k: "wrappersKeep I api"
  shows "keeps I (fetchSetDetailsAsync api a ms caller)"
proof -
  have g: "keeps I (getSetDetails (protocolViewerWrapper api) a ms caller)"
    and f: "keeps I (batchFetchStreamingFeeInfo (protocolViewerWrapper api) [a] caller)"
    using k by (simp_all add: wrappersKeep_def)
  show ?thesis
    unfolding fetchSetDetailsAsync_def
    apply (intro keeps_checked)
    apply (rule keepsI)
    apply (rule keeps_await [OF _ g])
     apply assumption
    apply (simp add: Let_def)
    apply (intro conjI impI keepsI)
     apply simp
    apply (rule keeps_await [OF _ f])
     apply assumption
    apply (rule keepsI)
    apply (simp split: list.splits)
    done
qed

lemma keeps_batchFetchBalancesOfAsync:
  assumes k: "wrappersKeep I api"
  shows "keeps I (batchFetchBalancesOfAsync api ts u caller)"
proof -
  have "\<And>os. keeps I (batchFetchBalancesOf (protocolViewerWrapper api) ts os caller)"
    using k by (simp add: wrappersKeep_def)
  then show ?thesis
    unfolding batchFetchBalancesOfAsync_def
    by (intro keeps_checked keepsI) (auto split: sum.splits dest: keepsD)
qed

lemma keeps_batchFetchAllowancesAsync:
  assumes k: "wrappersKeep I api"
  shows "keeps I (batchFetchAllowancesAsync api ts ow sp caller)"
proof -
  have "\<And>os ss. keeps I (batchFetchAllowances (protocolViewerWrapper api) ts os ss caller)"
    using k by (simp add: wrappersKeep_def)
  then show ?thesis
    unfolding batchFetchAllowancesAsync_def
    by (intro keeps_checked keepsI) (auto split: sum.splits prod.splits dest: keepsD)
qed

lemma perform_keeps:
  assumes k: "wrappersKeep I api" and w: "I w"
  shows "I (snd (perform api c w))"
proof -
  have step: "I (snd (returning f m w))" if "keeps I m" for f :: "'b \<Rightarrow> ApiResult" and m
    by (rule keeps_returning) (rule keepsD [OF that w])
  note ops = keeps_op [OF k] keeps_fetchSetDetailsAsync [OF k]
        keeps_batchFetchBalancesOfAsync [OF k] keeps_batchFetchAllowancesAsync [OF k]
  show ?thesis
    by (cases c; simp only: perform.simps; rule step; rule ops)
qed

lemma load_frame:
  "snd (load lc st) = st \<or>
   (\<exists>key. cache (fst st) key = None \<and>
      snd (load lc st) =
        ((fst st)\<lparr>cache := (cache (fst st))(key \<mapsto> length (snd st))\<rparr>,
         snd st @ [\<lparr>factory = factoryOf lc, contractAddress = addressOf lc,
                    contractSigner = signerOf (provider (fst st)) lc\<rparr>]))"
  unfolding load_loadCached
  by (rule loadCached_cases
      [of "signerOf (provider (fst st)) lc" "kindOf lc" "factoryOf lc" "addressOf lc" st])
    auto

lemmas recording_simps =
  recording_def answering_def budAnswers_def budSetDetails_def Assertions_new_def
  check_def await_def returning_def

text \<open>
  Claim C2. The code breaks the claim at one operation: \<open>batchFetchManagersAsync\<close> is
  the call of the viewer wrapper's \<open>batchFetchManagers\<close> and nothing else, for every API
  object and every list, so it asserts nothing. Called with the malformed address
  \<open>vitalik.eth\<close> it is not rejected: the wrapper receives the request with that
  address. Its sibling batch operations \<open>batchFetchBalancesOfAsync\<close> and
  \<open>batchFetchSetDetailsAsync\<close> reject the same list with the validation error of their
  assertion before any wrapper is called.
\<close>

theorem batchFetchManagers_asserts_nothing:
  "batchFetchManagersAsync api tokenAddresses w =
     batchFetchManagers (protocolViewerWrapper api) tokenAddresses w \<and>
   \<not> isHex 40 ''vitalik.eth'' \<and>
   ''vitalik.eth'' \<in> set (addressArguments (BatchFetchManagersAsync [''vitalik.eth''])) \<and>
   perform (recording budAnswers ''0xE99447aBbD5A7730b26D2D16fCcB2086319e4bC3'')
     (BatchFetchManagersAsync [''vitalik.eth'']) [] =
     (Inr (Addresses [''0x89A3EFC92f3FAbe59F3DeAa5e5e92773EE29fA37'']),
      [BatchFetchManagers [''vitalik.eth'']]) \<and>
   perform (recording budAnswers ''0xE99447aBbD5A7730b26D2D16fCcB2086319e4bC3'')
     (BatchFetchBalancesOfAsync [''vitalik.eth'']
        ''0x89A3EFC92f3FAbe59F3DeAa5e5e92773EE29fA37'' None) [] =
     (Inl (ValidationError ''tokenAddress''), []) \<and>
   perform (recording budAnswers ''0xE99447aBbD5A7730b26D2D16fCcB2086319e4bC3'')
     (BatchFetchSetDetailsAsync [''vitalik.eth''] [] None) [] =
     (Inl (ValidationError ''setTokenAddresses''), [])"
  by (simp add: recording_simps api_defs isHex_examples)

theorem mismatched_lengths_rejected_witness:
  "assert (recording budAnswers ''0xE99447aBbD5A7730b26D2D16fCcB2086319e4bC3'') =
     Assertions_new (isHex 40) (isHex 64) \<and>
   length [''0x2791Bca1f2de4661ED88A30C99A7a9449Aa84174'',
           ''0x1BFD67037B42Cf73acF2047067bd4F2C47D9BfD6''] \<noteq> length [50000000 :: int] \<and>
   createAsync (recording budAnswers ''0xE99447aBbD5A7730b26D2D16fCcB2086319e4bC3'')
     [''0x2791Bca1f2de4661ED88A30C99A7a9449Aa84174'', ''0x1BFD67037B42Cf73acF2047067bd4F2C47D9BfD6'']
     [50000000] [''0xE99447aBbD5A7730b26D2D16fCcB2086319e4bC3'']
     ''0x89A3EFC92f3FAbe59F3DeAa5e5e92773EE29fA37'' ''BUD Set'' ''BUD'' None [] [] =
     (Inl (ValidationError ''Component addresses and units must be equal length.''), [])"
proof -
  have a: "assert (recording budAnswers ''0xE99447aBbD5A7730b26D2D16fCcB2086319e4bC3'') =
     Assertions_new (isHex 40) (isHex 64)"
    by (simp add: recording_def)
  have l: "length [''0x2791Bca1f2de4661ED88A30C99A7a9449Aa84174'',
           ''0x1BFD67037B42Cf73acF2047067bd4F2C47D9BfD6''] \<noteq> length [50000000 :: int]"
    by simp
  from mismatched_lengths_rejected [OF a l] a l show ?thesis
    by simp
qed


theorem fetchSetDetails_streaming_fee_witness:
  "isValidAddress (schema (assert (recording budAnswers ''0xE99447aBbD5A7730b26D2D16fCcB2086319e4bC3'')))
     ''setTokenAddress'' ''0x1494ca1f11d487c2bbe4543e90080aeba4ba3c2b'' = Inr () \<and>
   ''0xE99447aBbD5A7730b26D2D16fCcB2086319e4bC3'' \<in> set (modules budSetDetails) \<and>
   fetchSetDetailsAsync (recording budAnswers ''0xE99447aBbD5A7730b26D2D16fCcB2086319e4bC3'')
     ''0x1494ca1f11d487c2bbe4543e90080aeba4ba3c2b'' [] None [] =
     (Inr (WithStreamingInfo (SetDetails.extend budSetDetails
        \<lparr>feeRecipient = ''0x89A3EFC92f3FAbe59F3DeAa5e5e92773EE29fA37'',
         streamingFeePercentage = 10 ^ 16, unaccruedFees = 0\<rparr>)),
      [GetSetDetails ''0x1494ca1f11d487c2bbe4543e90080aeba4ba3c2b'' [] None,
       BatchFetchStreamingFeeInfo [''0x1494ca1f11d487c2bbe4543e90080aeba4ba3c2b''] None]) \<and>
   ''0x0000000000000000000000000000000000000000'' \<notin> set (modules budSetDetails) \<and>
   fetchSetDetailsAsync (recording budAnswers ''0x0000000000000000000000000000000000000000'')
     ''0x1494ca1f11d487c2bbe4543e90080aeba4ba3c2b'' [] None [] =
     (Inr (Plain budSetDetails), [GetSetDetails ''0x1494ca1f11d487c2bbe4543e90080aeba4ba3c2b'' [] None])"
proof -
  let ?set = "''0x1494ca1f11d487c2bbe4543e90080aeba4ba3c2b''"
  let ?fee = "''0xE99447aBbD5A7730b26D2D16fCcB2086319e4bC3''"
  let ?zero = "''0x0000000000000000000000000000000000000000''"
  let ?info = "\<lparr>StreamingFeeInfo.feeRecipient = ''0x89A3EFC92f3FAbe59F3DeAa5e5e92773EE29fA37'',
                 StreamingFeeInfo.streamingFeePercentage = 10 ^ 16,
                 StreamingFeeInfo.unaccruedFees = 0\<rparr>"
  have v1: "isValidAddress (schema (assert (recording budAnswers f))) ''setTokenAddress'' ?set = Inr ()"
    and v2: "isValidAddressList (schema (assert (recording budAnswers f))) ''moduleAddresses'' [] = Inr ()"
    and d: "getSetDetails (protocolViewerWrapper (recording budAnswers f)) ?set [] None [] =
      (Inr budSetDetails, [GetSetDetails ?set [] None])"
    for f
    by (simp_all add: recording_def Assertions_new_def answering_def budAnswers_def isHex_examples)
  have i: "batchFetchStreamingFeeInfo (protocolViewerWrapper (recording budAnswers ?fee)) [?set] None
      [GetSetDetails ?set [] None] =
      (Inr (?info # []), [GetSetDetails ?set [] None, BatchFetchStreamingFeeInfo [?set] None])"
    by (simp add: recording_def answering_def budAnswers_def)
  have m: "?fee \<in> set (modules budSetDetails)" "?zero \<notin> set (modules budSetDetails)"
    by (simp_all add: budSetDetails_def)
  have sf: "streamingFeeModuleAddress (recording budAnswers f) = f" for f
    by (simp add: recording_def)
  from fetchSetDetails_streaming_fee [OF v1 v2 d, of ?fee ?info "[]"
      "[GetSetDetails ?set [] None, BatchFetchStreamingFeeInfo [?set] None]"] m i
  have "fetchSetDetailsAsync (recording budAnswers ?fee) ?set [] None [] =
     (Inr (WithStreamingInfo (SetDetails.extend budSetDetails
        \<lparr>feeRecipient = ''0x89A3EFC92f3FAbe59F3DeAa5e5e92773EE29fA37'',
         streamingFeePercentage = 10 ^ 16, unaccruedFees = 0\<rparr>)),
      [GetSetDetails ?set [] None, BatchFetchStreamingFeeInfo [?set] None])"
    by (simp add: sf)
  moreover from fetchSetDetails_streaming_fee [OF v1 v2 d, of ?zero] m
  have "fetchSetDetailsAsync (recording budAnswers ?zero) ?set [] None [] =
     (Inr (Plain budSetDetails), [GetSetDetails ?set [] None])"
    by (simp add: sf)
  ultimately show ?thesis using v1 m by blast
qed

theorem fetchSetDetails_fails_fast_witness:
  "isValidAddress (schema (assert (recording budAnswers ''0xE99447aBbD5A7730b26D2D16fCcB2086319e4bC3'')))
     ''setTokenAddress'' ''0x1494ca1f11d487c2bbe4543e90080aeba4ba3c2b'' = Inr () \<and>
   fetchSetDetailsAsync
     (recording (budAnswers\<lparr>streamingFeeInfoAnswer := Inl (RemoteError ''execution reverted'')\<rparr>)
        ''0xE99447aBbD5A7730b26D2D16fCcB2086319e4bC3'')
     ''0x1494ca1f11d487c2bbe4543e90080aeba4ba3c2b'' [] None [] =
     (Inl (RemoteError ''execution reverted''),
      [GetSetDetails ''0x1494ca1f11d487c2bbe4543e90080aeba4ba3c2b'' [] None,
       BatchFetchStreamingFeeInfo [''0x1494ca1f11d487c2bbe4543e90080aeba4ba3c2b''] None]) \<and>
   fetchSetDetailsAsync
     (recording (budAnswers\<lparr>setDetailsAnswer := Inl (RemoteError ''network error'')\<rparr>)
        ''0xE99447aBbD5A7730b26D2D16fCcB2086319e4bC3'')
     ''0x1494ca1f11d487c2bbe4543e90080aeba4ba3c2b'' [] None [] =
     (Inl (RemoteError ''network error''),
      [GetSetDetails ''0x1494ca1f11d487c2bbe4543e90080aeba4ba3c2b'' [] None])"
proof -
  let ?set = "''0x1494ca1f11d487c2bbe4543e90080aeba4ba3c2b''"
  let ?fee = "''0xE99447aBbD5A7730b26D2D16fCcB2086319e4bC3''"
  let ?noFee = "budAnswers\<lparr>streamingFeeInfoAnswer := Inl (RemoteError ''execution reverted'')\<rparr>"
  let ?noDetails = "budAnswers\<lparr>setDetailsAnswer := Inl (RemoteError ''network error'')\<rparr>"
  have v1: "isValidAddress (schema (assert (recording ans ?fee))) ''setTokenAddress'' ?set = Inr ()"
    and v2: "isValidAddressList (schema (assert (recording ans ?fee))) ''moduleAddresses'' [] = Inr ()"
    for ans
    by (simp_all add: recording_def Assertions_new_def isHex_examples)
  have d: "getSetDetails (protocolViewerWrapper (recording ?noFee ?fee)) ?set [] None [] =
      (Inr budSetDetails, [GetSetDetails ?set [] None])"
    and i: "batchFetchStreamingFeeInfo (protocolViewerWrapper (recording ?noFee ?fee)) [?set] None
      [GetSetDetails ?set [] None] =
      (Inl (RemoteError ''execution reverted''),
       [GetSetDetails ?set [] None, BatchFetchStreamingFeeInfo [?set] None])"
    and m: "streamingFeeModuleAddress (recording ?noFee ?fee) \<in> set (modules budSetDetails)"
    and e: "getSetDetails (protocolViewerWrapper (recording ?noDetails ?fee)) ?set [] None [] =
      (Inl (RemoteError ''network error''), [GetSetDetails ?set [] None])"
    by (simp_all add: recording_def answering_def budAnswers_def budSetDetails_def)
  from fetchSetDetails_fails_fast [OF v1 v2, of ?noFee None "[]" "RemoteError ''execution reverted''"
      "[GetSetDetails ?set [] None]" budSetDetails
      "[GetSetDetails ?set [] None, BatchFetchStreamingFeeInfo [?set] None]"] d i m
  have "fetchSetDetailsAsync (recording ?noFee ?fee) ?set [] None [] =
     (Inl (RemoteError ''execution reverted''),
      [GetSetDetails ?set [] None, BatchFetchStreamingFeeInfo [?set] None])"
    by simp
  moreover from fetchSetDetails_fails_fast [OF v1 v2, of ?noDetails None "[]"
      "RemoteError ''network error''" "[GetSetDetails ?set [] None]"] e
  have "fetchSetDetailsAsync (recording ?noDetails ?fee) ?set [] None [] =
     (Inl (RemoteError ''network error''), [GetSetDetails ?set [] None])"
    by simp
  ultimately show ?thesis using v1 [of budAnswers] by blast
qed

theorem batch_parallel_arrays_aligned_witness:
  "batchFetchBalancesOfAsync (recording budAnswers ''0xE99447aBbD5A7730b26D2D16fCcB2086319e4bC3'')
     [''0x2791Bca1f2de4661ED88A30C99A7a9449Aa84174'', ''0x1BFD67037B42Cf73acF2047067bd4F2C47D9BfD6'']
     ''0x89A3EFC92f3FAbe59F3DeAa5e5e92773EE29fA37'' None [] =
     (Inr [7],
      [BatchFetchBalancesOf
         [''0x2791Bca1f2de4661ED88A30C99A7a9449Aa84174'', ''0x1BFD67037B42Cf73acF2047067bd4F2C47D9BfD6'']
         [''0x89A3EFC92f3FAbe59F3DeAa5e5e92773EE29fA37'', ''0x89A3EFC92f3FAbe59F3DeAa5e5e92773EE29fA37'']
         None]) \<and>
   batchFetchAllowancesAsync (recording budAnswers ''0xE99447aBbD5A7730b26D2D16fCcB2086319e4bC3'')
     [''0x2791Bca1f2de4661ED88A30C99A7a9449Aa84174'', ''0x1BFD67037B42Cf73acF2047067bd4F2C47D9BfD6'']
     ''0x89A3EFC92f3FAbe59F3DeAa5e5e92773EE29fA37'' ''0x1494ca1f11d487c2bbe4543e90080aeba4ba3c2b''
     None [] =
     (Inr [7],
      [BatchFetchAllowances
         [''0x2791Bca1f2de4661ED88A30C99A7a9449Aa84174'', ''0x1BFD67037B42Cf73acF2047067bd4F2C47D9BfD6'']
         [''0x89A3EFC92f3FAbe59F3DeAa5e5e92773EE29fA37'', ''0x89A3EFC92f3FAbe59F3DeAa5e5e92773EE29fA37'']
         [''0x1494ca1f11d487c2bbe4543e90080aeba4ba3c2b'', ''0x1494ca1f11d487c2bbe4543e90080aeba4ba3c2b'']
         None]) \<and>
   (\<exists>e. batchFetchBalancesOfAsync (recording budAnswers ''0xE99447aBbD5A7730b26D2D16fCcB2086319e4bC3'')
      [''0x2791Bca1f2de4661ED88A30C99A7a9449Aa84174'', ''vitalik.eth'']
      ''0x89A3EFC92f3FAbe59F3DeAa5e5e92773EE29fA37'' None [] = (Inl e, []))"
proof -
  let ?api = "recording budAnswers ''0xE99447aBbD5A7730b26D2D16fCcB2086319e4bC3''"
  let ?t1 = "''0x2791Bca1f2de4661ED88A30C99A7a9449Aa84174''"
  let ?t2 = "''0x1BFD67037B42Cf73acF2047067bd4F2C47D9BfD6''"
  let ?u = "''0x89A3EFC92f3FAbe59F3DeAa5e5e92773EE29fA37''"
  let ?sp = "''0x1494ca1f11d487c2bbe4543e90080aeba4ba3c2b''"
  have v: "isValidAddress (schema (assert ?api)) n a = (if isHex 40 a then Inr () else Inl (ValidationError n))"
    for n a
    by (simp add: recording_def Assertions_new_def)
  have b: "batchFetchBalancesOf (protocolViewerWrapper ?api) ts os c [] =
      (Inr [7], [BatchFetchBalancesOf ts os c])"
    and a: "batchFetchAllowances (protocolViewerWrapper ?api) ts os ss c [] =
      (Inr [7], [BatchFetchAllowances ts os ss c])"
    for ts os ss c
    by (simp_all add: recording_def answering_def budAnswers_def)
  note aligned = batch_parallel_arrays_aligned [where api = ?api and c = None and w = "[]"]
  from aligned [where u = ?u and ts = "[?t1, ?t2]"]
  have "batchFetchBalancesOfAsync ?api [?t1, ?t2] ?u None [] =
      (Inr [7], [BatchFetchBalancesOf [?t1, ?t2] [?u, ?u] None])"
    by (simp add: v b isHex_examples)
  moreover from aligned [where ts = "[?t1, ?t2]" and ow = ?u and sp = ?sp]
  have "batchFetchAllowancesAsync ?api [?t1, ?t2] ?u ?sp None [] =
      (Inr [7], [BatchFetchAllowances [?t1, ?t2] [?u, ?u] [?sp, ?sp] None])"
    by (simp add: v a isHex_examples)
  moreover from aligned [where u = ?u and ts = "[?t1, ''vitalik.eth'']"]
  have "\<exists>e. batchFetchBalancesOfAsync ?api [?t1, ''vitalik.eth''] ?u None [] = (Inl e, [])"
    by (simp add: v isHex_examples)
  ultimately show ?thesis by blast
qed

section \<open>Properties of the proxy wrappers\<close>

lemma load_rejects_unchanged:
  assumes "load c st = (Inl e, st1)"
  shows "st1 = st"
  using assms unfolding load_loadCached
  by (rule_tac loadCached_cases
      [of "signerOf (provider (fst st)) c" "kindOf c" "factoryOf c" "addressOf c" st]) auto

lemma load_idem: "snd (load c (snd (load c st))) = snd (load c st)"
proof -
  obtain res st1 where l: "load c st = (res, st1)"
    by (cases "load c st")
  show ?thesis
  proof (cases res)
    case (Inl e)
    with l load_rejects_unchanged [of c st e st1] show ?thesis by simp
  next
    case (Inr r)
    with l have l: "load c st = (Inr r, st1)" by simp
    from load_stores [OF l] obtain sa
      where "tupleOf (provider (fst st)) c = Inr (kindOf c, addressOf c, sa)"
        and "cache (fst st1) (cacheKeyOf (kindOf c) (addressOf c) sa) = Some r"
      by blast
    moreover have "provider (fst st1) = provider (fst st)"
      using load_provider [of c st] l by simp
    ultimately have "load c st1 = (Inr r, st1)"
      using load_again [of st1 c] by simp
    with l show ?thesis by simp
  qed
qed

lemma viewerContract_load:
  "viewerContract a c st = load (LoadProtocolViewer a (getSigner (provider (fst st)) c)) st"
  by (simp add: viewerContract_def)

lemma viewerContract_idem:
  "snd (viewerContract a c (snd (viewerContract a c st))) = snd (viewerContract a c st)"
proof -
  let ?lc = "LoadProtocolViewer a (getSigner (provider (fst st)) c)"
  have p: "provider (fst (snd (load ?lc st))) = provider (fst st)"
    by (rule load_provider)
  have a: "viewerContract a c st = load ?lc st"
    by (rule viewerContract_load)
  have b: "viewerContract a c (snd (load ?lc st)) = load ?lc (snd (load ?lc st))"
    unfolding viewerContract_load p ..
  show ?thesis
    by (simp only: a b load_idem)
qed

lemma contracts_proxy: "contracts (snd (proxy l q d w)) = snd (l (contracts w))"
  by (cases "l (contracts w)") (auto simp: proxy_def split: sum.splits)

lemma backend_proxy: "backend (snd (proxy l q d w)) = backend w"
  by (cases "l (contracts w)") (auto simp: proxy_def split: sum.splits)

lemma loadsOnlyI:
  "(\<And>answers. contracts (snd (m (w\<lparr>backend := answers\<rparr>))) = loadAll cs (contracts w)) \<Longrightarrow>
   loadsOnly m w"
  unfolding loadsOnly_def by blast

lemma loadsOnly_proxy:
  assumes "l (contracts w) = load lc (contracts w)"
  shows "loadsOnly (proxy l q d) w"
  by (rule loadsOnlyI [of _ _ "[lc]"]) (simp add: contracts_proxy assms)

lemma loadsOnly_check:
  assumes "loadsOnly m w"
  shows "loadsOnly (check a m) w"
proof (cases a)
  case (Inl e)
  show ?thesis
    by (rule loadsOnlyI [of _ _ "[]"]) (simp add: check_def Inl)
next
  case (Inr u)
  with assms show ?thesis
    by (simp add: loadsOnly_def check_def)
qed

lemma loadsOnly_returning:
  assumes "loadsOnly m w"
  shows "loadsOnly (returning f m) w"
proof -
  have "contracts (snd (returning f m v)) = contracts (snd (m v))" for v
    by (cases "m v") (auto simp: returning_def split: sum.splits)
  with assms show ?thesis by (simp add: loadsOnly_def)
qed

lemma loadsOnly_SetToken:
  "loadsOnly (proxy (loadSetTokenAsync a c) q d) w"
  by (rule loadsOnly_proxy [of _ _ "LoadSetToken a c"]) simp

lemma loadsOnly_viewer:
  "loadsOnly (proxy (viewerContract a c) q d) w"
  by (rule loadsOnly_proxy [of _ _ "LoadProtocolViewer a (getSigner (provider (fst (contracts w))) c)"])
    (simp add: viewerContract_def)

lemmas sdk_defs = SetTokenAPI_new_def SetTokenWrapper_new_def SetTokenCreatorWrapper_new_def
  ProtocolViewerWrapper_new_def ProtocolUtils_new_def

lemma sdk_sel:
  "assert (SetTokenAPI_new v f k asr) = asr"
  "streamingFeeModuleAddress (SetTokenAPI_new v f k asr) = f"
  "getSetDetails (protocolViewerWrapper (SetTokenAPI_new v f k asr)) =
     (\<lambda>a ms c. proxy (viewerContract v c) (GetSetDetails a ms c) setDetailsAnswer)"
  "batchFetchStreamingFeeInfo (protocolViewerWrapper (SetTokenAPI_new v f k asr)) =
     (\<lambda>as c. proxy (viewerContract v c) (BatchFetchStreamingFeeInfo as c) streamingFeeInfoAnswer)"
  by (simp_all add: sdk_defs)

lemma contracts_two_requests:
  assumes idem: "\<And>st. snd (l (snd (l st))) = snd (l st)"
    and ret: "\<And>x u. contracts (snd (ret x u)) = contracts u"
    and k: "\<And>x infos u. contracts (snd (k x infos u)) = contracts u"
  shows "contracts (snd (await (proxy l q1 d1)
      (\<lambda>x. if P x then ret x else await (proxy l q2 d2) (k x)) u)) = snd (l (contracts u))"
proof -
  obtain res u1 where p1: "proxy l q1 d1 u = (res, u1)"
    by (cases "proxy l q1 d1 u")
  then have c1: "contracts u1 = snd (l (contracts u))"
    using contracts_proxy [of l q1 d1 u] by simp
  show ?thesis
  proof (cases res)
    case (Inl e)
    with p1 c1 show ?thesis by (simp add: await_def)
  next
    case (Inr x)
    show ?thesis
    proof (cases "P x")
      case True
      with p1 Inr c1 ret [of x u1] show ?thesis by (simp add: await_def)
    next
      case False
      obtain res2 u2 where p2: "proxy l q2 d2 u1 = (res2, u2)"
        by (cases "proxy l q2 d2 u1")
      then have "contracts u2 = snd (l (contracts u1))"
        using contracts_proxy [of l q2 d2 u1] by simp
      with c1 have c2: "contracts u2 = snd (l (contracts u))"
        by (simp add: idem)
      show ?thesis
      proof (cases res2)
        case (Inl e)
        with p1 Inr False p2 c2 show ?thesis by (simp add: await_def)
      next
        case r2: (Inr infos)
        with p1 Inr False p2 c2 k [of x infos u2] show ?thesis by (simp add: await_def)
      qed
    qed
  qed
qed

lemma loadsOnly_fetchSetDetailsAsync:
  "loadsOnly (fetchSetDetailsAsync (SetTokenAPI_new v f k asr) a ms c) w"
proof -
  let ?lc = "LoadProtocolViewer v (getSigner (provider (fst (contracts w))) c)"
  have "loadsOnly (await (proxy (viewerContract v c) (GetSetDetails a ms c) setDetailsAnswer)
      (\<lambda>setDetails.
        if \<not> f \<in> set (modules setDetails) then (\<lambda>w. (Inr (Plain setDetails), w))
        else
          await (proxy (viewerContract v c) (BatchFetchStreamingFeeInfo [a] c) streamingFeeInfoAnswer)
            (\<lambda>infos w.
              case infos of
                [] \<Rightarrow> (Inl (TypeError ''Cannot read property feeRecipient of undefined''), w)
              | streamingFeeInfo # _ \<Rightarrow>
                  (Inr (WithStreamingInfo (SetDetails.extend setDetails
                     \<lparr>feeRecipient = StreamingFeeInfo.feeRecipient streamingFeeInfo,
                      streamingFeePercentage = StreamingFeeInfo.streamingFeePercentage streamingFeeInfo,
                      unaccruedFees = StreamingFeeInfo.unaccruedFees streamingFeeInfo\<rparr>)), w)))) w"
    apply (rule loadsOnlyI [of _ _ "[?lc]"])
    apply (subst contracts_two_requests)
       apply (rule viewerContract_idem)
      apply simp
     apply (simp split: list.splits)
    apply (simp add: viewerContract_def)
    done
  then show ?thesis
    unfolding fetchSetDetailsAsync_def sdk_sel Let_def
    by (intro loadsOnly_check)
qed


lemma loadsOnly_creator:
  "loadsOnly (proxy (\<lambda>st. loadSetTokenCreatorAsync k (getSigner (provider (fst st)) c) st) q d) w"
  by (rule loadsOnly_proxy
      [of _ _ "LoadSetTokenCreator k (getSigner (provider (fst (contracts w))) c)"]) simp

lemma loadsOnly_unchanged:
  assumes "\<And>u. contracts (snd (m u)) = contracts u"
  shows "loadsOnly m w"
  by (rule loadsOnlyI [of _ _ "[]"]) (simp add: assms)

lemma loadsOnly_cases:
  assumes "\<And>x. loadsOnly (m x) w"
  shows "loadsOnly (\<lambda>w. case r of Inl e \<Rightarrow> (Inl e, w) | Inr x \<Rightarrow> m x w) w"
  using assms by (cases r) (simp_all add: loadsOnly_unchanged)

lemma sdk_wrappers:
  "setTokenWrapper (SetTokenAPI_new v f k asr) = SetTokenWrapper_new"
  "setTokenCreatorWrapper (SetTokenAPI_new v f k asr) = SetTokenCreatorWrapper_new k"
  "protocolViewerWrapper (SetTokenAPI_new v f k asr) = ProtocolViewerWrapper_new v f"
  "protocolUtils (SetTokenAPI_new v f k asr) = ProtocolUtils_new"
  by (simp_all add: SetTokenAPI_new_def)

lemma loadsOnly_perform: "loadsOnly (perform (SetTokenAPI_new v f k asr) c) w"
proof (cases c)
  case (FetchSetDetailsAsync a ms caller)
  then show ?thesis
    by (simp add: loadsOnly_returning loadsOnly_fetchSetDetailsAsync)
next
  case (BatchFetchBalancesOfAsync ts u caller)
  show ?thesis
    unfolding BatchFetchBalancesOfAsync perform.simps batchFetchBalancesOfAsync_def
    by (intro loadsOnly_returning loadsOnly_check loadsOnly_cases)
      (simp_all add: sdk_wrappers ProtocolViewerWrapper_new_def loadsOnly_viewer loadsOnly_unchanged)
next
  case (BatchFetchAllowancesAsync ts ow sp caller)
  have "loadsOnly (\<lambda>w. case r of Inl e \<Rightarrow> (Inl e, w)
      | Inr (os, ss) \<Rightarrow> batchFetchAllowances (ProtocolViewerWrapper_new v f) ts os ss caller w) w"
    for r
    by (cases r)
      (auto simp: ProtocolViewerWrapper_new_def loadsOnly_viewer loadsOnly_unchanged)
  then show ?thesis
    unfolding BatchFetchAllowancesAsync perform.simps batchFetchAllowancesAsync_def sdk_wrappers
    by (intro loadsOnly_returning loadsOnly_check)
next
  case (GetSetAddressFromCreateHash h)
  show ?thesis
    unfolding GetSetAddressFromCreateHash perform.simps getSetAddressFromCreateHash_def
    by (intro loadsOnly_returning loadsOnly_check loadsOnly_unchanged)
      (simp add: sdk_wrappers ProtocolUtils_new_def)
qed (simp_all add: api_defs sdk_wrappers SetTokenWrapper_new_def SetTokenCreatorWrapper_new_def
    ProtocolViewerWrapper_new_def loadsOnly_returning loadsOnly_check loadsOnly_SetToken
    loadsOnly_viewer loadsOnly_creator)

lemma keeps_proxy: "keeps (\<lambda>u. backend u = b) (proxy l q d)"
  by (simp add: keeps_def backend_proxy)

lemma backend_perform: "backend (snd (perform (SetTokenAPI_new v f k asr) c w)) = backend w"
proof -
  have "wrappersKeep (\<lambda>u. backend u = backend w) (SetTokenAPI_new v f k asr)"
    unfolding wrappersKeep_def
    by (simp add: sdk_wrappers SetTokenWrapper_new_def SetTokenCreatorWrapper_new_def
        ProtocolViewerWrapper_new_def ProtocolUtils_new_def keeps_proxy)
      (simp add: keeps_def)
  from perform_keeps [OF this, of w c] show ?thesis by simp
qed


lemma proxy_Inr: "proxy l q d w = (Inr x, w') \<Longrightarrow> d (backend w q) = Inr x"
  by (cases "l (contracts w)") (auto simp: proxy_def split: sum.splits)

lemma check_InrD: "check a m w = (Inr x, w') \<Longrightarrow> m w = (Inr x, w')"
  by (cases a) (simp_all add: check_def)

lemma returning_InrD:
  "returning g m w = (Inr res, w') \<Longrightarrow> \<exists>x. m w = (Inr x, w') \<and> res = g x"
  by (cases "m w") (auto simp: returning_def split: sum.splits)

lemma fetchSetDetails_returns_details:
  assumes "fetchSetDetailsAsync api a ms caller w = (Inr r, w')"
  shows "\<exists>w1. getSetDetails (protocolViewerWrapper api) a ms caller w = (Inr (detailsOf r), w1)"
  using assms
  by (auto simp: fetchSetDetailsAsync_def check_def await_def Let_def
      SetDetails.extend_def SetDetails.truncate_def
      split: sum.splits prod.splits if_splits list.splits)

lemma mapE_owner_result:
  assumes "mapE (\<lambda>t. case (g t :: error + unit) of Inl e \<Rightarrow> Inl e | Inr _ \<Rightarrow> Inr u) ts = Inr os"
  shows "os = replicate (length ts) u"
proof (cases "list_all (\<lambda>t. g t = Inr ()) ts")
  case True
  from mapE_all_pass [OF this, of u] assms show ?thesis by simp
next
  case False
  from mapE_some_fail [OF this, of u] assms show ?thesis by auto
qed

lemma forEachE_owner_result:
  assumes "forEachE (\<lambda>t (os, ss). case (g t :: error + unit) of Inl e \<Rightarrow> Inl e | Inr _ \<Rightarrow> Inr (os @ [ow], ss @ [sp]))
      ts ([], []) = Inr (os, ss)"
  shows "os = replicate (length ts) ow \<and> ss = replicate (length ts) sp"
proof (cases "list_all (\<lambda>t. g t = Inr ()) ts")
  case True
  from forEachE_all_pass [OF this, of ow sp "[]" "[]"] assms show ?thesis by simp
next
  case False
  from forEachE_some_fail [OF this, of ow sp "[]" "[]"] assms show ?thesis by auto
qed

lemma read_answered:
  assumes "isRead c" and "perform (SetTokenAPI_new v f k asr) c w = (Inr res, w')"
  shows "answered (backend w (requestOf c)) res"
proof (cases c)
  case (FetchSetDetailsAsync a ms caller)
  with assms(2) obtain r
    where r: "fetchSetDetailsAsync (SetTokenAPI_new v f k asr) a ms caller w = (Inr r, w')"
      and res: "res = Details r"
    by (auto dest: returning_InrD)
  from fetchSetDetails_returns_details [OF r] obtain w1
    where "proxy (viewerContract v caller) (GetSetDetails a ms caller) setDetailsAnswer w =
      (Inr (detailsOf r), w1)"
    by (auto simp: sdk_sel)
  from proxy_Inr [OF this] res FetchSetDetailsAsync show ?thesis by simp
next
  case (BatchFetchBalancesOfAsync ts u caller)
  with assms(2) obtain ns
    where r: "batchFetchBalancesOfAsync (SetTokenAPI_new v f k asr) ts u caller w = (Inr ns, w')"
      and res: "res = Numbers ns"
    by (auto dest: returning_InrD)
  from r obtain os
    where m: "mapE (\<lambda>tokenAddress.
        case isValidAddress (schema asr) ''tokenAddress'' tokenAddress of
          Inl e \<Rightarrow> Inl e | Inr _ \<Rightarrow> Inr u) ts = Inr os"
      and p: "proxy (viewerContract v caller) (BatchFetchBalancesOf ts os caller) numbersAnswer w =
        (Inr ns, w')"
    by (auto simp: batchFetchBalancesOfAsync_def sdk_sel sdk_wrappers ProtocolViewerWrapper_new_def
        dest!: check_InrD split: sum.splits)
  from mapE_owner_result [OF m] proxy_Inr [OF p] res BatchFetchBalancesOfAsync
  show ?thesis by simp
next
  case (BatchFetchAllowancesAsync ts ow sp caller)
  with assms(2) obtain ns
    where r: "batchFetchAllowancesAsync (SetTokenAPI_new v f k asr) ts ow sp caller w = (Inr ns, w')"
      and res: "res = Numbers ns"
    by (auto dest: returning_InrD)
  from r obtain os ss
    where m: "forEachE (\<lambda>tokenAddress (ownerAddresses, spenderAddresses).
        case isValidAddress (schema asr) ''tokenAddress'' tokenAddress of
          Inl e \<Rightarrow> Inl e
        | Inr _ \<Rightarrow> Inr (ownerAddresses @ [ow], spenderAddresses @ [sp])) ts ([], []) = Inr (os, ss)"
      and p: "proxy (viewerContract v caller) (BatchFetchAllowances ts os ss caller) numbersAnswer w =
        (Inr ns, w')"
    by (auto simp: batchFetchAllowancesAsync_def sdk_sel sdk_wrappers ProtocolViewerWrapper_new_def
        dest!: check_InrD split: sum.splits)
  from forEachE_owner_result [OF m] proxy_Inr [OF p] res BatchFetchAllowancesAsync
  show ?thesis by simp
next
  case (GetSetAddressFromCreateHash h)
  with assms(2) show ?thesis
    by (auto simp: getSetAddressFromCreateHash_def sdk_wrappers ProtocolUtils_new_def
        dest!: returning_InrD check_InrD)
qed (use assms in \<open>auto simp: api_defs sdk_wrappers SetTokenWrapper_new_def
    ProtocolViewerWrapper_new_def dest!: returning_InrD check_InrD proxy_Inr\<close>)


lemma contracts_after_any_answers:
  assumes "loadsOnly m w"
  shows "contracts (snd (m (w\<lparr>backend := b1\<rparr>))) = contracts (snd (m (w\<lparr>backend := b2\<rparr>)))"
  using assms by (auto simp: loadsOnly_def)

lemma Sdk_eqI:
  "contracts (w1 :: Sdk) = contracts w2 \<Longrightarrow> w1\<lparr>backend := b\<rparr> = w2\<lparr>backend := b\<rparr>"
  by (cases w1, cases w2) simp

text \<open>
  Claim C8. The API object that the constructor builds over the proxy wrappers, in any
  state of the contract cache and with any remote side. After a read operation (every
  operation but the four that send a transaction: \<open>fetchSetDetailsAsync\<close>,
  \<open>getPositionsAsync\<close>, \<open>getModuleStateAsync\<close> and the batch fetches among them) the
  state that the wrappers hold is the state before with some handles loaded, the same
  whatever the remote side answered: nothing of an answer is in it. The remote side is
  as before. A result returned is the answer that the remote side gives to the
  operation's request in this call. An operation that follows returns the same whatever
  the read was answered: no earlier answer is served again. And a \<open>load...Async\<close>, the
  one mutation there is, leaves the \<open>ContractWrapper\<close> as it is or adds one key with a
  new handle to the cache.
\<close>

theorem reads_keep_no_entity:
  assumes "api = SetTokenAPI_new viewer feeModule creator assertions" and "isRead c"
  shows "loadsOnly (perform api c) w \<and>
    backend (snd (perform api c w)) = backend w \<and>
    (perform api c w = (Inr res, w') \<longrightarrow> answered (backend w (requestOf c)) res) \<and>
    fst (perform api c' ((snd (perform api c (w\<lparr>backend := early\<rparr>)))\<lparr>backend := late\<rparr>)) =
    fst (perform api c' ((snd (perform api c (w\<lparr>backend := other\<rparr>)))\<lparr>backend := late\<rparr>)) \<and>
    (snd (load lc st) = st \<or>
     (\<exists>key. cache (fst st) key = None \<and>
        snd (load lc st) =
          ((fst st)\<lparr>cache := (cache (fst st))(key \<mapsto> length (snd st))\<rparr>,
           snd st @ [\<lparr>factory = factoryOf lc, contractAddress = addressOf lc,
                      contractSigner = signerOf (provider (fst st)) lc\<rparr>])))"
proof -
  have l: "loadsOnly (perform api c) w"
    unfolding assms(1) by (rule loadsOnly_perform)
  have b: "backend (snd (perform api c w)) = backend w"
    unfolding assms(1) by (rule backend_perform)
  have a: "perform api c w = (Inr res, w') \<longrightarrow> answered (backend w (requestOf c)) res"
    using read_answered [OF assms(2)] unfolding assms(1) by blast
  have "(snd (perform api c (w\<lparr>backend := early\<rparr>)))\<lparr>backend := late\<rparr> =
      (snd (perform api c (w\<lparr>backend := other\<rparr>)))\<lparr>backend := late\<rparr>"
    by (rule Sdk_eqI) (rule contracts_after_any_answers [OF l])
  then have i: "fst (perform api c' ((snd (perform api c (w\<lparr>backend := early\<rparr>)))\<lparr>backend := late\<rparr>)) =
      fst (perform api c' ((snd (perform api c (w\<lparr>backend := other\<rparr>)))\<lparr>backend := late\<rparr>))"
    by simp
  from l b a i load_frame [of lc st] show ?thesis
    by (intro conjI)
qed

lemmas sdk_simps =
  exampleAPI_def exampleBalances_def exampleSdk_def exampleLoaded_def sdk_defs proxy_def
  viewerContract_def batchFetchBalancesOfAsync_def loadProtocolViewerContractAsync_def
  loadCached_def connect_def cacheKeyOf_def ContractWrapper_new_def exampleProvider_def
  Assertions_new_def check_def returning_def budAnswers_def isHex_def

lemma exampleBalances_run:
  "perform exampleAPI exampleBalances exampleSdk = (Inr (Numbers [7]), exampleLoaded)"
  by (simp add: sdk_simps)

lemma exampleBalances_again:
  "perform exampleAPI exampleBalances exampleLoaded = (Inr (Numbers [7]), exampleLoaded)"
  by (simp add: sdk_simps)

theorem reads_keep_no_entity_witness:
  "isRead exampleBalances \<and>
   loadsOnly (perform exampleAPI exampleBalances) exampleSdk \<and>
   backend (snd (perform exampleAPI exampleBalances exampleSdk)) = backend exampleSdk \<and>
   perform exampleAPI exampleBalances exampleSdk = (Inr (Numbers [7]), exampleLoaded) \<and>
   answered (backend exampleSdk (requestOf exampleBalances)) (Numbers [7]) \<and>
   fst (perform exampleAPI exampleBalances
     ((snd (perform exampleAPI exampleBalances
        (exampleSdk\<lparr>backend := \<lambda>request. budAnswers\<lparr>numbersAnswer := Inr [1, 2]\<rparr>\<rparr>)))
      \<lparr>backend := \<lambda>request. budAnswers\<rparr>)) = Inr (Numbers [7])"
proof -
  have r: "isRead exampleBalances"
    by (simp add: exampleBalances_def)
  have s: "exampleSdk\<lparr>backend := \<lambda>request. budAnswers\<rparr> = exampleSdk"
    "exampleLoaded\<lparr>backend := \<lambda>request. budAnswers\<rparr> = exampleLoaded"
    by (simp_all add: exampleSdk_def exampleLoaded_def)
  note t = reads_keep_no_entity [where w = exampleSdk and res = "Numbers [7]"
      and w' = exampleLoaded and c' = exampleBalances
      and early = "\<lambda>request. budAnswers\<lparr>numbersAnswer := Inr [1, 2]\<rparr>"
      and other = "\<lambda>request. budAnswers" and late = "\<lambda>request. budAnswers",
      OF exampleAPI_def r]
  have "fst (perform exampleAPI exampleBalances
     ((snd (perform exampleAPI exampleBalances
        (exampleSdk\<lparr>backend := \<lambda>request. budAnswers\<lparr>numbersAnswer := Inr [1, 2]\<rparr>\<rparr>)))
      \<lparr>backend := \<lambda>request. budAnswers\<rparr>)) =
    fst (perform exampleAPI exampleBalances
     ((snd (perform exampleAPI exampleBalances (exampleSdk\<lparr>backend := \<lambda>request. budAnswers\<rparr>)))
      \<lparr>backend := \<lambda>request. budAnswers\<rparr>))"
    by (rule t [THEN conjunct2, THEN conjunct2, THEN conjunct2, THEN conjunct1])
  also have "\<dots> = Inr (Numbers [7])"
    by (simp only: s exampleBalances_run exampleBalances_again snd_conv fst_conv)
  finally have i: "fst (perform exampleAPI exampleBalances
     ((snd (perform exampleAPI exampleBalances
        (exampleSdk\<lparr>backend := \<lambda>request. budAnswers\<lparr>numbersAnswer := Inr [1, 2]\<rparr>\<rparr>)))
      \<lparr>backend := \<lambda>request. budAnswers\<rparr>)) = Inr (Numbers [7])" .
  from t [THEN conjunct2, THEN conjunct2, THEN conjunct1] exampleBalances_run
  have a: "answered (backend exampleSdk (requestOf exampleBalances)) (Numbers [7])"
    by (rule mp)
  from r t [THEN conjunct1] t [THEN conjunct2, THEN conjunct1] exampleBalances_run a i
  show ?thesis by (intro conjI)
qed

section \<open>The module lifecycle\<close>

text \<open>
  Claim C5. Let the API object send \<open>addModule\<close>, \<open>initializeModule\<close> and
  \<open>moduleStates\<close> to the chain, with the default assertions and well-formed addresses.
  From a module in state \<open>NONE\<close>, after a successful \<open>addModuleAsync\<close> the state read
  through \<open>getModuleStateAsync\<close> is \<open>PENDING\<close>; after a successful
  \<open>initializeModuleAsync\<close> called by that module it is \<open>INITIALIZED\<close>; and
  \<open>initializeModuleAsync\<close> for a caller that is not in state \<open>PENDING\<close> fails with
  the error of the remote call, the chain unchanged.
\<close>

theorem module_lifecycle:
  assumes remote: "onChain api"
    and asserts: "assert api = Assertions_new isAddress isHash"
    and wf: "isAddress setAddress" "isAddress moduleAddress"
    and none: "moduleStateOf chain setAddress moduleAddress = NONE"
    and added: "addModuleAsync api setAddress moduleAddress caller txOpts chain = (Inr tx, chainP)"
  shows "getModuleStateAsync api setAddress moduleAddress callerP chainP = (Inr PENDING, chainP) \<and>
         (initializeModuleAsync api setAddress (Some moduleAddress) txOptsI chainP = (Inr txI, chainI) \<longrightarrow>
            getModuleStateAsync api setAddress moduleAddress callerI chainI = (Inr INITIALIZED, chainI)) \<and>
         (moduleStateOf chainX setAddress (sender chainX callerX) \<noteq> PENDING \<longrightarrow>
            (\<exists>msg. initializeModuleAsync api setAddress callerX txOptsX chainX =
               (Inl (RemoteError msg), chainX)))"
proof -
  have get: "getModuleStateAsync api setAddress moduleAddress c w =
      (Inr (moduleStateOf w setAddress moduleAddress), w)" for c w
    using remote wf
    by (simp add: getModuleStateAsync_def asserts Assertions_new_sel check_def onChain_def
        remoteModuleStates_def)
  have init: "initializeModuleAsync api setAddress c t w = remoteInitializeModule setAddress c t w"
    for c t w
    using remote wf
    by (simp add: initializeModuleAsync_def asserts Assertions_new_sel check_def onChain_def)
  have add: "addModuleAsync api setAddress moduleAddress caller txOpts chain =
      remoteAddModule setAddress moduleAddress caller txOpts chain"
    using remote wf
    by (simp add: addModuleAsync_def asserts Assertions_new_sel check_def onChain_def)
  from added have pending: "moduleStateOf chainP setAddress moduleAddress = PENDING"
    unfolding add by (auto simp: remoteAddModule_def split: if_splits)
  have initialized: "moduleStateOf chainI setAddress moduleAddress = INITIALIZED"
    if "initializeModuleAsync api setAddress (Some moduleAddress) txOptsI chainP = (Inr txI, chainI)"
    using that unfolding init
    by (auto simp: remoteInitializeModule_def sender_def split: if_splits)
  have reverts: "\<exists>msg. initializeModuleAsync api setAddress callerX txOptsX chainX =
      (Inl (RemoteError msg), chainX)"
    if "moduleStateOf chainX setAddress (sender chainX callerX) \<noteq> PENDING"
    using that unfolding init by (simp add: remoteInitializeModule_def)
  from pending initialized reverts show ?thesis by (simp add: get)
qed


theorem module_lifecycle_witness:
  "onChain chainAPI \<and>
   moduleStateOf exampleChain ''0x1494ca1f11d487c2bbe4543e90080aeba4ba3c2b''
     ''0xE99447aBbD5A7730b26D2D16fCcB2086319e4bC3'' = NONE \<and>
   fst (addModuleAsync chainAPI ''0x1494ca1f11d487c2bbe4543e90080aeba4ba3c2b''
     ''0xE99447aBbD5A7730b26D2D16fCcB2086319e4bC3'' None [] exampleChain) = Inr ''addModule'' \<and>
   fst (getModuleStateAsync chainAPI ''0x1494ca1f11d487c2bbe4543e90080aeba4ba3c2b''
     ''0xE99447aBbD5A7730b26D2D16fCcB2086319e4bC3'' None
     (snd (addModuleAsync chainAPI ''0x1494ca1f11d487c2bbe4543e90080aeba4ba3c2b''
        ''0xE99447aBbD5A7730b26D2D16fCcB2086319e4bC3'' None [] exampleChain))) = Inr PENDING \<and>
   fst (initializeModuleAsync chainAPI ''0x1494ca1f11d487c2bbe4543e90080aeba4ba3c2b''
     (Some ''0xE99447aBbD5A7730b26D2D16fCcB2086319e4bC3'') []
     (snd (addModuleAsync chainAPI ''0x1494ca1f11d487c2bbe4543e90080aeba4ba3c2b''
        ''0xE99447aBbD5A7730b26D2D16fCcB2086319e4bC3'' None [] exampleChain))) =
     Inr ''initializeModule'' \<and>
   fst (getModuleStateAsync chainAPI ''0x1494ca1f11d487c2bbe4543e90080aeba4ba3c2b''
     ''0xE99447aBbD5A7730b26D2D16fCcB2086319e4bC3'' None
     (snd (initializeModuleAsync chainAPI ''0x1494ca1f11d487c2bbe4543e90080aeba4ba3c2b''
        (Some ''0xE99447aBbD5A7730b26D2D16fCcB2086319e4bC3'') []
        (snd (addModuleAsync chainAPI ''0x1494ca1f11d487c2bbe4543e90080aeba4ba3c2b''
           ''0xE99447aBbD5A7730b26D2D16fCcB2086319e4bC3'' None [] exampleChain))))) =
     Inr INITIALIZED \<and>
   (\<exists>msg. initializeModuleAsync chainAPI ''0x1494ca1f11d487c2bbe4543e90080aeba4ba3c2b''
      (Some ''0x2791Bca1f2de4661ED88A30C99A7a9449Aa84174'') [] exampleChain =
      (Inl (RemoteError msg), exampleChain))"
proof -
  let ?set = "''0x1494ca1f11d487c2bbe4543e90080aeba4ba3c2b''"
  let ?module = "''0xE99447aBbD5A7730b26D2D16fCcB2086319e4bC3''"
  let ?other = "''0x2791Bca1f2de4661ED88A30C99A7a9449Aa84174''"
  let ?chain1 = "snd (addModuleAsync chainAPI ?set ?module None [] exampleChain)"
  let ?chain2 = "snd (initializeModuleAsync chainAPI ?set (Some ?module) [] ?chain1)"
  have hex: "isHex 40 ?set" "isHex 40 ?module"
    by (simp_all add: isHex_def)
  have remote: "onChain chainAPI"
    by (simp add: onChain_def chainAPI_def)
  have asserts: "assert chainAPI = Assertions_new (isHex 40) (isHex 64)"
    by (simp add: chainAPI_def)
  have none: "moduleStateOf exampleChain ?set ?module = NONE"
    by (simp add: exampleChain_def)
  have add: "addModuleAsync chainAPI ?set ?module None [] exampleChain = (Inr ''addModule'', ?chain1)"
    by (simp add: addModuleAsync_def chainAPI_def Assertions_new_def check_def hex
        remoteAddModule_def sender_def exampleChain_def)
  have init: "initializeModuleAsync chainAPI ?set (Some ?module) [] ?chain1 =
      (Inr ''initializeModule'', ?chain2)"
    by (simp add: addModuleAsync_def initializeModuleAsync_def chainAPI_def Assertions_new_def
        check_def hex remoteAddModule_def remoteInitializeModule_def sender_def exampleChain_def)
  have other: "moduleStateOf exampleChain ?set (sender exampleChain (Some ?other)) \<noteq> PENDING"
    by (simp add: exampleChain_def)
  note t = module_lifecycle [where api = chainAPI and isAddress = "isHex 40" and isHash = "isHex 64"
      and setAddress = ?set and moduleAddress = ?module and chain = exampleChain
      and caller = None and txOpts = "[]" and tx = "''addModule''" and chainP = ?chain1
      and callerP = None and txOptsI = "[]" and txI = "''initializeModule''"
      and chainI = ?chain2 and callerI = None and chainX = exampleChain
      and callerX = "Some ?other" and txOptsX = "[]",
      OF remote asserts hex none add]
  have p: "getModuleStateAsync chainAPI ?set ?module None ?chain1 = (Inr PENDING, ?chain1)"
    using t by (rule conjunct1)
  have i: "getModuleStateAsync chainAPI ?set ?module None ?chain2 = (Inr INITIALIZED, ?chain2)"
    using t [THEN conjunct2, THEN conjunct1] init by (rule mp)
  have r: "\<exists>msg. initializeModuleAsync chainAPI ?set (Some ?other) [] exampleChain =
      (Inl (RemoteError msg), exampleChain)"
    using t [THEN conjunct2, THEN conjunct2] other by (rule mp)
  have a1: "fst (addModuleAsync chainAPI ?set ?module None [] exampleChain) = Inr ''addModule''"
    using arg_cong [OF add, of fst] by (simp only: fst_conv)
  have p1: "fst (getModuleStateAsync chainAPI ?set ?module None ?chain1) = Inr PENDING"
    using arg_cong [OF p, of fst] by (simp only: fst_conv)
  have i1: "fst (initializeModuleAsync chainAPI ?set (Some ?module) [] ?chain1) = Inr ''initializeModule''"
    using arg_cong [OF init, of fst] by (simp only: fst_conv)
  have i2: "fst (getModuleStateAsync chainAPI ?set ?module None ?chain2) = Inr INITIALIZED"
    using arg_cong [OF i, of fst] by (simp only: fst_conv)
  show ?thesis
    using remote none a1 p1 i1 i2 r by (intro conjI)
qed

section \<open>The trade quote of the fixture\<close>

lemmas fixture_defs = zeroExReponseEth_def setTradeQuoteEth_def specDisplayAmount_def
  specUsdValue_def specSlippage_def shownAs_def usdOf_def coinGeckoPricesResponseEth_def
  coinGeckoTokenResponseEth_def

text \<open>
  Claim C4, as amended. On the Ethereum fixture, \<open>buyAmount / 10^18\<close> is exactly the
  fixture's \<open>toTokenDisplayAmount\<close> 0.04131269116050703. The USD values of the amount
  sold and of the amount bought, by the spec's formula, are the fixture's \<open>$1,597.20\<close>
  and \<open>$1,614.79\<close> to two decimals, and the spec's slippage formula applied to these
  two USD values is the fixture's \<open>-1.10%\<close> to two decimals.
\<close>

theorem fixture_trade_quote_arithmetic:
  "specDisplayAmount (buyAmount zeroExReponseEth) 18 = toTokenDisplayAmount setTradeQuoteEth \<and>
   shownAs 2 (usdOf (fromTokenAddress setTradeQuoteEth) (sellAmount zeroExReponseEth))
     (fromTokenPriceUsd setTradeQuoteEth) \<and>
   shownAs 2 (usdOf (toTokenAddress setTradeQuoteEth) (buyAmount zeroExReponseEth))
     (toTokenPriceUsd setTradeQuoteEth) \<and>
   shownAs 2
     (100 * specSlippage
        (usdOf (fromTokenAddress setTradeQuoteEth) (sellAmount zeroExReponseEth))
        (usdOf (toTokenAddress setTradeQuoteEth) (buyAmount zeroExReponseEth)))
     (slippage setTradeQuoteEth)"
  by (simp add: fixture_defs)

text \<open>
  Claim C4 as stated fails: the quote's \<open>price\<close> and \<open>guaranteedPrice\<close> are equal, so
  (quoted - guaranteed) / quoted is 0 for the quoted and the guaranteed price and for
  the amounts they give for \<open>sellAmount\<close>; with \<open>buyAmount\<close> as the quoted amount
  it is next to 0. None of these is shown as -1.10 percent.
\<close>

theorem fixture_slippage_not_quoted_guaranteed:
  "specSlippage (price zeroExReponseEth) (guaranteedPrice zeroExReponseEth) = 0 \<and>
   \<not> shownAs 2 (100 * specSlippage (price zeroExReponseEth) (guaranteedPrice zeroExReponseEth))
       (slippage setTradeQuoteEth) \<and>
   \<not> shownAs 2
       (100 * specSlippage (price zeroExReponseEth * real_of_int (sellAmount zeroExReponseEth))
          (guaranteedPrice zeroExReponseEth * real_of_int (sellAmount zeroExReponseEth)))
       (slippage setTradeQuoteEth) \<and>
   \<not> shownAs 2
       (100 * specSlippage (real_of_int (buyAmount zeroExReponseEth))
          (guaranteedPrice zeroExReponseEth * real_of_int (sellAmount zeroExReponseEth)))
       (slippage setTradeQuoteEth)"
  by (simp add: fixture_defs)

text \<open>
  Claim C7 as stated fails: the display amount of the token sold is not the exact
  decimal value. \<open>sellAmount / 10^18\<close> is 0.499999999999793729 and the fixture's
  \<open>fromTokenDisplayAmount\<close> is 0.4999999999997937, the value that a double shows.
\<close>

theorem fixture_display_amount_not_exact:
  "specDisplayAmount (sellAmount zeroExReponseEth) 18 = 0.499999999999793729 \<and>
   fromTokenDisplayAmount setTradeQuoteEth = 0.4999999999997937 \<and>
   specDisplayAmount (sellAmount zeroExReponseEth) 18 \<noteq> fromTokenDisplayAmount setTradeQuoteEth"
  by (simp add: fixture_defs)

text \<open>
  Claim C7, as amended. On the Ethereum fixture every display value is the exact
  decimal result up to the digits shown. The display amount of the token sold is
  \<open>sellAmount / 10^18\<close> to 16 decimals, 29 units of the 18th decimal away from it; the
  display amount of the token bought and the gas cost in the chain's currency,
  gas units \<times> gas price, are exact; the USD values and the slippage are the exact
  results to the two decimals shown.
\<close>

theorem fixture_display_values_rounded:
  "shownAs 16 (specDisplayAmount (sellAmount zeroExReponseEth) 18)
     (fromTokenDisplayAmount setTradeQuoteEth) \<and>
   \<bar>specDisplayAmount (sellAmount zeroExReponseEth) 18 - fromTokenDisplayAmount setTradeQuoteEth\<bar> =
     29 / 10 ^ 18 \<and>
   specDisplayAmount (buyAmount zeroExReponseEth) 18 = toTokenDisplayAmount setTradeQuoteEth \<and>
   specGasCost (gas setTradeQuoteEth) (gasPrice setTradeQuoteEth) =
     gasCostsChainCurrency setTradeQuoteEth \<and>
   shownAs 2 (usdOf (fromTokenAddress setTradeQuoteEth) (sellAmount zeroExReponseEth))
     (fromTokenPriceUsd setTradeQuoteEth) \<and>
   shownAs 2 (usdOf (toTokenAddress setTradeQuoteEth) (buyAmount zeroExReponseEth))
     (toTokenPriceUsd setTradeQuoteEth) \<and>
   shownAs 2
     (100 * specSlippage
        (usdOf (fromTokenAddress setTradeQuoteEth) (sellAmount zeroExReponseEth))
        (usdOf (toTokenAddress setTradeQuoteEth) (buyAmount zeroExReponseEth)))
     (slippage setTradeQuoteEth)"
  by (simp add: fixture_defs specGasCost_def)

end
